theory Spec2Isabelle
  imports Complex_Main "HOL-Library.AList" "HOL-Library.Word" "HOL-Library.Monad_Syntax"
begin

section \<open>Python values used by the schematic SDK\<close>

text \<open>
  The SDK is Python.  Its \<^verbatim>\<open>int\<close> values are modelled as \<^typ>\<open>int\<close>, its
  \<^verbatim>\<open>float\<close> values as exact \<^typ>\<open>real\<close> numbers (rounding is not modelled), a
  \<^verbatim>\<open>dict\<close> whose order matters as an association list updated with
  \<^const>\<open>AList.update\<close> (an existing key keeps its place, a new key goes last, as in
  Python), and a \<^verbatim>\<open>str\<close> as a \<^typ>\<open>string\<close>.
\<close>

definition nl :: string where
  "nl = [CHR 0x0A]"

text \<open>\<^verbatim>\<open>sep.join(parts)\<close>.\<close>

fun join :: "string \<Rightarrow> string list \<Rightarrow> string" where
  "join sep [] = []"
| "join sep [p] = p"
| "join sep (p # q # ps) = p @ sep @ join sep (q # ps)"

text \<open>\<^verbatim>\<open>enumerate(xs)\<close>: the elements paired with their indices from 0.\<close>

definition enumerate0 :: "'a list \<Rightarrow> (nat \<times> 'a) list" where
  "enumerate0 xs = List.enumerate 0 xs"

text \<open>\<^verbatim>\<open>str(n)\<close> for an integer: its decimal digits, after a minus sign when negative.\<close>

definition digit_char :: "nat \<Rightarrow> char" where
  "digit_char d = ''0123456789'' ! d"

fun str_of_nat :: "nat \<Rightarrow> string" where
  "str_of_nat n =
     (if n < 10 then [digit_char n] else str_of_nat (n div 10) @ [digit_char (n mod 10)])"

definition str_of_int :: "int \<Rightarrow> string" where
  "str_of_int i = (if i < 0 then ''-'' @ str_of_nat (nat (- i)) else str_of_nat (nat i))"

text \<open>
  \<^verbatim>\<open>html.escape(s)\<close> with its default \<^verbatim>\<open>quote=True\<close>: the five characters
  \<^verbatim>\<open>& < > " '\<close> are replaced, every other character is kept.
\<close>

definition html_escape :: "string \<Rightarrow> string" where
  \<open>html_escape s = concat (map (\<lambda>ch.
     if ch = CHR ''&'' then ''&amp;''
     else if ch = CHR ''<'' then ''&lt;''
     else if ch = CHR ''>'' then ''&gt;''
     else if ch = CHR ''"'' then ''&quot;''
     else if ch = CHR 0x27 then ''&#x27;''
     else [ch]) s)\<close>

text \<open>Sequencing of steps that may fail: the first error ends the computation.\<close>

definition and_then :: "'e + 'a \<Rightarrow> ('a \<Rightarrow> 'e + 'b) \<Rightarrow> 'e + 'b" where
  "and_then r f = (case r of Inl e \<Rightarrow> Inl e | Inr v \<Rightarrow> f v)"

text \<open>
  \<^verbatim>\<open>d[key]\<close> for a dictionary with string keys: the value, or the \<^verbatim>\<open>KeyError\<close> Python
  raises for a key the dictionary does not hold.
\<close>

datatype lookup_error = KeyError string

definition getitem :: "(string \<times> 'v) list \<Rightarrow> string \<Rightarrow> lookup_error + 'v" where
  "getitem d k = (case map_of d k of None \<Rightarrow> Inl (KeyError k) | Some v \<Rightarrow> Inr v)"

section \<open>components.py\<close>

datatype ComponentType = SERVICE | DATABASE | GPU | AI | API | QUEUE | EXTERNAL | TERMINAL

text \<open>The \<^verbatim>\<open>.value\<close> of each enumeration member.\<close>

fun ComponentType_value :: "ComponentType \<Rightarrow> string" where
  "ComponentType_value SERVICE = ''service''"
| "ComponentType_value DATABASE = ''database''"
| "ComponentType_value GPU = ''gpu''"
| "ComponentType_value AI = ''ai''"
| "ComponentType_value API = ''api''"
| "ComponentType_value QUEUE = ''queue''"
| "ComponentType_value EXTERNAL = ''external''"
| "ComponentType_value TERMINAL = ''terminal''"

datatype ConnectionStyle = SOLID | DASHED | DOTTED

datatype ComponentStatus = ACTIVE | PENDING | ERROR | INACTIVE

fun ComponentStatus_value :: "ComponentStatus \<Rightarrow> string" where
  "ComponentStatus_value ACTIVE = ''active''"
| "ComponentStatus_value PENDING = ''pending''"
| "ComponentStatus_value ERROR = ''error''"
| "ComponentStatus_value INACTIVE = ''inactive''"

datatype PortPosition = TOP | RIGHT | BOTTOM | LEFT

record Port =
  port_id :: string
  port_position :: PortPosition
  port_type :: string

text \<open>
  \<^verbatim>\<open>Component\<close>.  The free-form \<^verbatim>\<open>metadata\<close> dictionary, which no layout or
  rendering code reads, is left out; \<^verbatim>\<open>id\<close>, \<^verbatim>\<open>type\<close> and \<^verbatim>\<open>size\<close> carry the prefix
  \<open>comp_\<close>.
\<close>

record Component =
  comp_id :: string
  comp_type :: ComponentType
  label :: string
  sublabel :: string
  position :: "(real \<times> real) option"
  comp_size :: "(real \<times> real) option"
  status :: ComponentStatus
  ports :: "Port list"
  layer :: int

record Connection =
  conn_id :: string
  from_node :: string
  to_node :: string
  from_port :: string
  to_port :: string
  conn_label :: string
  style :: ConnectionStyle
  animated :: bool
  bidirectional :: bool
  color_override :: "string option"

record Annotation =
  ann_id :: string
  ann_text :: string
  ann_position :: "real \<times> real"
  ann_style :: string
  anchor :: string

record SchematicConfig =
  width :: int
  height :: int
  title :: string
  cfg_theme :: string
  cfg_layout :: string
  show_grid :: bool
  show_legend :: bool
  show_title :: bool
  version_badge :: string
  padding :: int
  cfg_layer_spacing :: int
  cfg_node_spacing :: int

text \<open>\<^verbatim>\<open>SchematicConfig()\<close> with every default.\<close>

definition SchematicConfig_default :: SchematicConfig where
  "SchematicConfig_default = \<lparr>
     width = 900, height = 600, title = ''SLATE Schematic'', cfg_theme = ''blueprint'',
     cfg_layout = ''hierarchical'', show_grid = True, show_legend = True,
     show_title = True, version_badge = [], padding = 40, cfg_layer_spacing = 120,
     cfg_node_spacing = 100 \<rparr>"

text \<open>
  \<^verbatim>\<open>Component.__post_init__\<close> gives a component without ports the two default ports.
\<close>

definition default_ports :: "Port list" where
  "default_ports = [
     \<lparr> port_id = ''left'', port_position = LEFT, port_type = ''input'' \<rparr>,
     \<lparr> port_id = ''right'', port_position = RIGHT, port_type = ''output'' \<rparr>]"

text \<open>
  \<^verbatim>\<open>ServiceNode(id=i, label=l, layer=lay, position=pos, size=sz)\<close>: the size defaults to
  140 by 60.
\<close>

definition ServiceNode ::
  "string \<Rightarrow> string \<Rightarrow> int \<Rightarrow> (real \<times> real) option \<Rightarrow> (real \<times> real) option \<Rightarrow> Component" where
  "ServiceNode i l lay pos sz = \<lparr>
     comp_id = i, comp_type = SERVICE, label = l, sublabel = [], position = pos,
     comp_size = (case sz of None \<Rightarrow> Some (140, 60) | Some d \<Rightarrow> Some d),
     status = ACTIVE, ports = default_ports, layer = lay \<rparr>"

text \<open>\<^verbatim>\<open>FlowConnector(id=i, from_node=a, to_node=b, label=l)\<close>.\<close>

definition FlowConnector :: "string \<Rightarrow> string \<Rightarrow> string \<Rightarrow> string \<Rightarrow> Connection" where
  "FlowConnector i a b l = \<lparr>
     conn_id = i, from_node = a, to_node = b, from_port = ''right'', to_port = ''left'',
     conn_label = l, style = SOLID, animated = False, bidirectional = False,
     color_override = None \<rparr>"

section \<open>theme.py\<close>

record SchematicColors =
  background :: string
  background_gradient_end :: string
  grid_lines :: string
  grid_opacity :: real
  primary :: string
  primary_light :: string
  primary_dark :: string
  blueprint_accent :: string
  blueprint_node :: string
  surface :: string
  surface_container :: string
  surface_elevated :: string
  status_active :: string
  status_pending :: string
  status_error :: string
  status_inactive :: string
  service_fill :: string
  database_fill :: string
  gpu_fill :: string
  ai_fill :: string
  api_fill :: string
  queue_fill :: string
  external_fill :: string
  text_primary :: string
  text_secondary :: string
  text_muted :: string
  border_default :: string
  border_hover :: string
  connection_default :: string
  connection_active :: string
  connection_muted :: string

definition SchematicColors_default :: SchematicColors where
  "SchematicColors_default = \<lparr>
     background = ''#0D1B2A'',
     background_gradient_end = ''#1B3A4B'',
     grid_lines = ''#1B3A4B'',
     grid_opacity = 0.3,
     primary = ''#B85A3C'',
     primary_light = ''#D4785A'',
     primary_dark = ''#8B4530'',
     blueprint_accent = ''#98C1D9'',
     blueprint_node = ''#E0FBFC'',
     surface = ''#1A1816'',
     surface_container = ''#2A2624'',
     surface_elevated = ''#3A3634'',
     status_active = ''#22C55E'',
     status_pending = ''#F59E0B'',
     status_error = ''#EF4444'',
     status_inactive = ''#6B7280'',
     service_fill = ''#2A2624'',
     database_fill = ''#1E3A5F'',
     gpu_fill = ''#3D2914'',
     ai_fill = ''#3D1E10'',
     api_fill = ''#1A2436'',
     queue_fill = ''#2A2436'',
     external_fill = ''transparent'',
     text_primary = ''#E8E2DE'',
     text_secondary = ''#CAC4BF'',
     text_muted = ''#6B7280'',
     border_default = ''#3A3634'',
     border_hover = ''#4A4644'',
     connection_default = ''#B85A3C'',
     connection_active = ''#22C55E'',
     connection_muted = ''#6B7280'' \<rparr>"

record SchematicTypography =
  font_display :: string
  font_mono :: string
  title_size :: int
  subtitle_size :: int
  label_size :: int
  sublabel_size :: int
  badge_size :: int
  weight_bold :: int
  weight_semibold :: int
  weight_regular :: int

definition SchematicTypography_default :: SchematicTypography where
  \<open>SchematicTypography_default = \<lparr>
     font_display = ''\'Segoe UI\', \'Inter\', system-ui, sans-serif'',
     font_mono = ''\'Consolas\', \'JetBrains Mono\', monospace'',
     title_size = 24,
     subtitle_size = 14,
     label_size = 12,
     sublabel_size = 10,
     badge_size = 11,
     weight_bold = 700,
     weight_semibold = 600,
     weight_regular = 400 \<rparr>\<close>

record SchematicEffects =
  shadow_dx :: int
  shadow_dy :: int
  shadow_blur :: int
  shadow_color :: string
  shadow_opacity :: real
  glow_blur :: int
  radius_sm :: int
  radius_md :: int
  radius_lg :: int

definition SchematicEffects_default :: SchematicEffects where
  "SchematicEffects_default = \<lparr>
     shadow_dx = 2,
     shadow_dy = 4,
     shadow_blur = 4,
     shadow_color = ''#000000'',
     shadow_opacity = 0.3,
     glow_blur = 2,
     radius_sm = 4,
     radius_md = 8,
     radius_lg = 12 \<rparr>"

record SchematicTheme =
  name :: string
  colors :: SchematicColors
  typography :: SchematicTypography
  effects :: SchematicEffects

text \<open>\<^verbatim>\<open>ThemeManager.THEMES\<close>: the overrides of each pre-defined theme, in source order.\<close>

definition THEMES :: "(string \<times> (string \<times> string) list) list" where
  "THEMES = [
     (''blueprint'', [
        (''background'', ''#0D1B2A''),
        (''background_gradient_end'', ''#1B3A4B''),
        (''grid_lines'', ''#1B3A4B''),
        (''primary'', ''#B85A3C'')]),
     (''dark'', [
        (''background'', ''#1A1816''),
        (''background_gradient_end'', ''#2A2624''),
        (''grid_lines'', ''#3A3634''),
        (''primary'', ''#B85A3C'')]),
     (''light'', [
        (''background'', ''#FBF8F6''),
        (''background_gradient_end'', ''#F0EBE7''),
        (''grid_lines'', ''#E4E0DC''),
        (''primary'', ''#B85A3C''),
        (''text_primary'', ''#1C1B1A''),
        (''text_secondary'', ''#4D4845''),
        (''surface_container'', ''#F5F2F0'')])]"

text \<open>
  \<^verbatim>\<open>hasattr(colors, key)\<close>: the attribute names of a \<^verbatim>\<open>SchematicColors\<close> instance.
\<close>

definition hasattr_colors :: "string \<Rightarrow> bool" where
  "hasattr_colors key \<longleftrightarrow> key \<in> set [
     ''background'', ''background_gradient_end'', ''grid_lines'', ''grid_opacity'',
     ''primary'', ''primary_light'', ''primary_dark'', ''blueprint_accent'',
     ''blueprint_node'', ''surface'', ''surface_container'', ''surface_elevated'',
     ''status_active'', ''status_pending'', ''status_error'', ''status_inactive'',
     ''service_fill'', ''database_fill'', ''gpu_fill'', ''ai_fill'', ''api_fill'',
     ''queue_fill'', ''external_fill'', ''text_primary'', ''text_secondary'',
     ''text_muted'', ''border_default'', ''border_hover'', ''connection_default'',
     ''connection_active'', ''connection_muted'']"

text \<open>
  \<^verbatim>\<open>setattr(colors, key, value)\<close> for a string value.  The one attribute that is not a
  string, \<^verbatim>\<open>grid_opacity\<close>, is left as it is: no entry of \<^const>\<open>THEMES\<close> names it.
\<close>

definition setattr_colors :: "SchematicColors \<Rightarrow> string \<Rightarrow> string \<Rightarrow> SchematicColors" where
  "setattr_colors c key v =
    (if key = ''background'' then c\<lparr>background := v\<rparr>
     else if key = ''background_gradient_end'' then c\<lparr>background_gradient_end := v\<rparr>
     else if key = ''grid_lines'' then c\<lparr>grid_lines := v\<rparr>
     else if key = ''primary'' then c\<lparr>primary := v\<rparr>
     else if key = ''primary_light'' then c\<lparr>primary_light := v\<rparr>
     else if key = ''primary_dark'' then c\<lparr>primary_dark := v\<rparr>
     else if key = ''blueprint_accent'' then c\<lparr>blueprint_accent := v\<rparr>
     else if key = ''blueprint_node'' then c\<lparr>blueprint_node := v\<rparr>
     else if key = ''surface'' then c\<lparr>surface := v\<rparr>
     else if key = ''surface_container'' then c\<lparr>surface_container := v\<rparr>
     else if key = ''surface_elevated'' then c\<lparr>surface_elevated := v\<rparr>
     else if key = ''status_active'' then c\<lparr>status_active := v\<rparr>
     else if key = ''status_pending'' then c\<lparr>status_pending := v\<rparr>
     else if key = ''status_error'' then c\<lparr>status_error := v\<rparr>
     else if key = ''status_inactive'' then c\<lparr>status_inactive := v\<rparr>
     else if key = ''service_fill'' then c\<lparr>service_fill := v\<rparr>
     else if key = ''database_fill'' then c\<lparr>database_fill := v\<rparr>
     else if key = ''gpu_fill'' then c\<lparr>gpu_fill := v\<rparr>
     else if key = ''ai_fill'' then c\<lparr>ai_fill := v\<rparr>
     else if key = ''api_fill'' then c\<lparr>api_fill := v\<rparr>
     else if key = ''queue_fill'' then c\<lparr>queue_fill := v\<rparr>
     else if key = ''external_fill'' then c\<lparr>external_fill := v\<rparr>
     else if key = ''text_primary'' then c\<lparr>text_primary := v\<rparr>
     else if key = ''text_secondary'' then c\<lparr>text_secondary := v\<rparr>
     else if key = ''text_muted'' then c\<lparr>text_muted := v\<rparr>
     else if key = ''border_default'' then c\<lparr>border_default := v\<rparr>
     else if key = ''border_hover'' then c\<lparr>border_hover := v\<rparr>
     else if key = ''connection_default'' then c\<lparr>connection_default := v\<rparr>
     else if key = ''connection_active'' then c\<lparr>connection_active := v\<rparr>
     else if key = ''connection_muted'' then c\<lparr>connection_muted := v\<rparr>
     else c)"

text \<open>\<^verbatim>\<open>ThemeManager._build_theme\<close>.\<close>

definition build_theme :: "string \<Rightarrow> SchematicTheme" where
  "build_theme theme_name =
    (let colors0 = SchematicColors_default;
         typography0 = SchematicTypography_default;
         effects0 = SchematicEffects_default;
         colors1 =
           (case map_of THEMES theme_name of
              Some overrides \<Rightarrow>
                fold (\<lambda>(key, v) c. if hasattr_colors key then setattr_colors c key v else c)
                  overrides colors0
            | None \<Rightarrow> colors0)
     in \<lparr> name = theme_name, colors = colors1, typography = typography0,
          effects = effects0 \<rparr>)"

record ThemeManager =
  theme_name :: string
  theme :: SchematicTheme

text \<open>\<^verbatim>\<open>ThemeManager.__init__\<close>.\<close>

definition ThemeManager_init :: "string \<Rightarrow> ThemeManager" where
  "ThemeManager_init n = \<lparr> theme_name = n, theme = build_theme n \<rparr>"

text \<open>\<^verbatim>\<open>ThemeManager.get_status_color\<close>: \<^verbatim>\<open>status_map.get(status, inactive)\<close>.\<close>

definition get_status_color :: "ThemeManager \<Rightarrow> string \<Rightarrow> string" where
  "get_status_color tm st =
    (let status_map = [
           (''active'', status_active (colors (theme tm))),
           (''pending'', status_pending (colors (theme tm))),
           (''error'', status_error (colors (theme tm))),
           (''inactive'', status_inactive (colors (theme tm)))]
     in case map_of status_map st of
          Some c \<Rightarrow> c
        | None \<Rightarrow> status_inactive (colors (theme tm)))"

text \<open>\<^verbatim>\<open>ThemeManager.get_component_fill\<close>.\<close>

definition get_component_fill :: "ThemeManager \<Rightarrow> string \<Rightarrow> string" where
  "get_component_fill tm component_type =
    (let fill_map = [
           (''service'', service_fill (colors (theme tm))),
           (''database'', database_fill (colors (theme tm))),
           (''gpu'', gpu_fill (colors (theme tm))),
           (''ai'', ai_fill (colors (theme tm))),
           (''api'', api_fill (colors (theme tm))),
           (''queue'', queue_fill (colors (theme tm))),
           (''external'', external_fill (colors (theme tm)))]
     in case map_of fill_map component_type of
          Some c \<Rightarrow> c
        | None \<Rightarrow> surface_container (colors (theme tm)))"

text \<open>\<^verbatim>\<open>ThemeManager.get_component_border\<close>.\<close>

definition get_component_border :: "ThemeManager \<Rightarrow> string \<Rightarrow> string \<Rightarrow> string" where
  "get_component_border tm component_type st =
    (if st = ''active'' then primary (colors (theme tm))
     else get_status_color tm st)"

subsection \<open>Properties of the theme manager\<close>

lemma build_theme_unknown:
  "n \<notin> {''blueprint'', ''dark'', ''light''} \<Longrightarrow>
     colors (build_theme n) = SchematicColors_default"
  by (simp add: build_theme_def THEMES_def Let_def)

lemma build_theme_blueprint:
  "colors (build_theme ''blueprint'') = SchematicColors_default"
  by (simp add: build_theme_def THEMES_def hasattr_colors_def setattr_colors_def
      SchematicColors_default_def)

text \<open>
  C7: a theme name outside blueprint, dark and light builds a theme (the constructor has
  no failing branch) whose colour palette is the palette of the blueprint theme.
\<close>

theorem unknown_theme_is_blueprint_palette:
  "n \<notin> {''blueprint'', ''dark'', ''light''} \<Longrightarrow>
     colors (theme (ThemeManager_init n)) = colors (theme (ThemeManager_init ''blueprint''))"
  by (simp add: ThemeManager_init_def build_theme_unknown build_theme_blueprint)

theorem unknown_theme_is_blueprint_palette_witness:
  "''neon'' \<notin> {''blueprint'', ''dark'', ''light''} \<and>
     colors (theme (ThemeManager_init ''neon'')) =
     colors (theme (ThemeManager_init ''blueprint''))"
  using unknown_theme_is_blueprint_palette [of "''neon''"] by simp

text \<open>
  C10: the border colour never depends on the component type.  It is the primary colour
  of the theme for the status active, the status colour otherwise, and a status outside
  active, pending, error and inactive gets the colour of inactive.
\<close>

theorem component_border_ignores_type:
  "get_component_border tm t1 s = get_component_border tm t2 s \<and>
   get_component_border tm t1 s =
     (if s = ''active'' then primary (colors (theme tm)) else get_status_color tm s) \<and>
   (s \<notin> {''active'', ''pending'', ''error'', ''inactive''} \<longrightarrow>
      get_status_color tm s = status_inactive (colors (theme tm)) \<and>
      get_component_border tm t1 s = status_inactive (colors (theme tm)))"
  by (simp add: get_component_border_def get_status_color_def)

theorem component_border_ignores_type_witness:
  "get_component_border (ThemeManager_init ''dark'') ''gpu'' ''broken'' =
     get_component_border (ThemeManager_init ''dark'') ''queue'' ''broken'' \<and>
   get_component_border (ThemeManager_init ''dark'') ''gpu'' ''broken'' = ''#6B7280'' \<and>
   get_component_border (ThemeManager_init ''dark'') ''gpu'' ''active'' = ''#B85A3C'' \<and>
   get_component_border (ThemeManager_init ''dark'') ''gpu'' ''error'' = ''#EF4444''"
proof -
  let ?tm = "ThemeManager_init ''dark''"
  have dark: "colors (theme ?tm) = SchematicColors_default
      \<lparr>background := ''#1A1816'', background_gradient_end := ''#2A2624'',
       grid_lines := ''#3A3634'', primary := ''#B85A3C''\<rparr>"
    by (simp add: ThemeManager_init_def build_theme_def THEMES_def hasattr_colors_def
        setattr_colors_def)
  have a: "get_component_border ?tm ''gpu'' ''broken'' =
      get_component_border ?tm ''queue'' ''broken''"
    using component_border_ignores_type [of ?tm "''gpu''" "''broken''" "''queue''"]
    by (rule conjunct1)
  have "''broken'' \<notin> {''active'', ''pending'', ''error'', ''inactive''}"
    by simp
  with component_border_ignores_type [of ?tm "''gpu''" "''broken''" "''queue''"]
  have b: "get_component_border ?tm ''gpu'' ''broken'' = status_inactive (colors (theme ?tm))"
    by blast
  have c: "get_component_border ?tm ''gpu'' ''active'' = primary (colors (theme ?tm))"
    using component_border_ignores_type
      [of ?tm "''gpu''" "''active''" "''queue''", THEN conjunct2, THEN conjunct1]
    by simp
  have d: "get_component_border ?tm ''gpu'' ''error'' = get_status_color ?tm ''error''"
    using component_border_ignores_type
      [of ?tm "''gpu''" "''error''" "''queue''", THEN conjunct2, THEN conjunct1]
    by simp
  have e: "get_status_color ?tm ''error'' = status_error (colors (theme ?tm))"
    by (simp add: get_status_color_def)
  show ?thesis
    using a b c d e by (simp add: dark SchematicColors_default_def)
qed

section \<open>layout.py\<close>

record LayoutResult =
  positions :: "(string \<times> (real \<times> real)) list"
  bounds :: "real \<times> real \<times> real \<times> real"

text \<open>\<^verbatim>\<open>min(xs)\<close> and \<^verbatim>\<open>max(xs)\<close> of a list that is not empty.\<close>

definition py_min :: "real list \<Rightarrow> real" where
  "py_min xs = fold min (tl xs) (hd xs)"

definition py_max :: "real list \<Rightarrow> real" where
  "py_max xs = fold max (tl xs) (hd xs)"

text \<open>The bounds every engine computes from the values of its position dictionary.\<close>

definition bounds_of :: "(string \<times> (real \<times> real)) list \<Rightarrow> real \<times> real \<times> real \<times> real" where
  "bounds_of ps =
    (let xs = map (\<lambda>(k, p). fst p) ps;
         ys = map (\<lambda>(k, p). snd p) ps
     in (py_min xs, py_min ys, py_max xs, py_max ys))"

text \<open>The result of every engine for an empty component list.\<close>

definition empty_result :: "SchematicConfig \<Rightarrow> LayoutResult" where
  "empty_result config =
     \<lparr> positions = [], bounds = (0, 0, real_of_int (width config), real_of_int (height config)) \<rparr>"

subsection \<open>HierarchicalLayout\<close>

text \<open>
  The constructor does not check its \<^verbatim>\<open>Literal\<close> annotations, so the direction and
  the alignment are the strings the caller gave.
\<close>

record HierarchicalLayout =
  direction :: string
  layer_spacing :: int
  node_spacing :: int
  align :: string

definition HierarchicalLayout_default :: HierarchicalLayout where
  "HierarchicalLayout_default =
     \<lparr> direction = ''TB'', layer_spacing = 120, node_spacing = 100, align = ''center'' \<rparr>"

text \<open>\<^verbatim>\<open>layers[key]\<close> for a key of the dictionary.\<close>

definition layer_components_of :: "(int \<times> Component list) list \<Rightarrow> int \<Rightarrow> Component list" where
  "layer_components_of layers layer_num =
     (case map_of layers layer_num of Some cs \<Rightarrow> cs | None \<Rightarrow> [])"

text \<open>The body of the loop that groups the components by layer.\<close>

definition add_to_layer ::
  "Component \<Rightarrow> (int \<times> Component list) list \<Rightarrow> (int \<times> Component list) list" where
  "add_to_layer component layers =
    (let layers1 =
           (if map_of layers (layer component) = None then AList.update (layer component) [] layers
            else layers)
     in AList.update (layer component) (layer_components_of layers1 (layer component) @ [component]) layers1)"

text \<open>The loop that groups the components by layer, from the empty dictionary.\<close>

definition group_by_layer :: "Component list \<Rightarrow> (int \<times> Component list) list" where
  "group_by_layer components = fold add_to_layer components []"

text \<open>\<^verbatim>\<open>comp.size[0] / 2 if comp.size else 70\<close>.\<close>

definition half_width :: "Component \<Rightarrow> real" where
  "half_width component = (case comp_size component of Some sz \<Rightarrow> fst sz / 2 | None \<Rightarrow> 70)"

text \<open>
  The coordinates the innermost loop body gives the component at index \<open>node_idx\<close> of
  the \<open>num_nodes\<close> components of the layer at index \<open>layer_idx\<close> of \<open>num_layers\<close>.
\<close>

definition hier_position ::
  "HierarchicalLayout \<Rightarrow> SchematicConfig \<Rightarrow> nat \<Rightarrow> nat \<Rightarrow> nat \<Rightarrow> nat \<Rightarrow> Component
     \<Rightarrow> real \<times> real" where
  "hier_position h config num_layers layer_idx num_nodes node_idx component =
    (let pad = real_of_int (padding config);
         available_width = real_of_int (width config - padding config * 2);
         available_height = real_of_int (height config - padding config * 2);
         layer_height = available_height / real (max num_layers 1);
         layer_width = available_width / real (max num_layers 1)
     in if direction h \<in> {''TB'', ''BT''} then
          (let y = (if direction h = ''TB''
                    then pad + real layer_idx * layer_height + layer_height / 2
                    else real_of_int (height config) - pad - real layer_idx * layer_height
                           - layer_height / 2);
               node_width = available_width / real (max num_nodes 1);
               x0 = pad + real node_idx * node_width + node_width / 2;
               x = (if align h = ''left''
                    then real_of_int (padding config + int node_idx * node_spacing h)
                           + half_width component
                    else if align h = ''right''
                    then real_of_int (width config - padding config
                           - (int num_nodes - 1 - int node_idx) * node_spacing h)
                           - half_width component
                    else x0)
           in (x, y))
        else
          (let x = (if direction h = ''LR''
                    then pad + real layer_idx * layer_width + layer_width / 2
                    else real_of_int (width config) - pad - real layer_idx * layer_width
                           - layer_width / 2);
               node_height = available_height / real (max num_nodes 1);
               y = pad + real node_idx * node_height + node_height / 2
           in (x, y)))"

text \<open>The body of the loop over the components of one layer.\<close>

definition place_node ::
  "HierarchicalLayout \<Rightarrow> SchematicConfig \<Rightarrow> nat \<Rightarrow> nat \<Rightarrow> nat \<Rightarrow> nat \<times> Component
     \<Rightarrow> (string \<times> (real \<times> real)) list \<Rightarrow> (string \<times> (real \<times> real)) list" where
  "place_node h config num_layers layer_idx num_nodes = (\<lambda>(node_idx, component) ps.
     AList.update (comp_id component)
       (hier_position h config num_layers layer_idx num_nodes node_idx component) ps)"

text \<open>The body of the loop over the sorted layers.\<close>

definition place_layer ::
  "HierarchicalLayout \<Rightarrow> SchematicConfig \<Rightarrow> (int \<times> Component list) list \<Rightarrow> nat \<Rightarrow> nat \<times> int
     \<Rightarrow> (string \<times> (real \<times> real)) list \<Rightarrow> (string \<times> (real \<times> real)) list" where
  "place_layer h config layers num_layers = (\<lambda>(layer_idx, layer_num) ps.
     (let layer_components = layer_components_of layers layer_num;
          num_nodes = length layer_components
      in fold (place_node h config num_layers layer_idx num_nodes)
           (enumerate0 layer_components) ps))"

text \<open>\<^verbatim>\<open>HierarchicalLayout.calculate_positions\<close>.\<close>

definition hierarchical_calculate_positions ::
  "HierarchicalLayout \<Rightarrow> Component list \<Rightarrow> Connection list \<Rightarrow> SchematicConfig \<Rightarrow> LayoutResult" where
  "hierarchical_calculate_positions h components connections config =
    (if components = [] then empty_result config
     else
       (let layers = group_by_layer components;
            sorted_layers = sort (map fst layers);
            num_layers = length sorted_layers;
            ps = fold (place_layer h config layers num_layers) (enumerate0 sorted_layers) []
        in \<lparr> positions = ps,
             bounds = (if ps \<noteq> [] then bounds_of ps
                       else (0, 0, real_of_int (width config), real_of_int (height config))) \<rparr>))"

text \<open>
  The coordinate along which the layers are stacked: \<open>y\<close> for the directions TB and BT,
  \<open>x\<close> for every other direction.
\<close>

definition primary_coordinate :: "HierarchicalLayout \<Rightarrow> real \<times> real \<Rightarrow> real" where
  "primary_coordinate h p = (if direction h \<in> {''TB'', ''BT''} then snd p else fst p)"


text \<open>
  Two names for the statements below: the sorted layer numbers of a component list (the
  \<^verbatim>\<open>sorted_layers\<close> of the source) and the components that share the layer of a
  given one, in list order (its \<^verbatim>\<open>layer_components\<close>).
\<close>

definition sorted_layers_of :: "Component list \<Rightarrow> int list" where
  "sorted_layers_of components = sort (map fst (group_by_layer components))"

definition same_layer :: "Component list \<Rightarrow> Component \<Rightarrow> Component list" where
  "same_layer components c = filter (\<lambda>d. layer d = layer c) components"

subsection \<open>ForceDirectedLayout\<close>

text \<open>The fields \<^verbatim>\<open>ForceDirectedLayout.__init__\<close> stores, and their defaults.\<close>

record ForceDirectedLayout =
  iterations :: int
  repulsion_strength :: real
  attraction_strength :: real
  center_gravity :: real
  damping :: real

definition ForceDirectedLayout_default :: ForceDirectedLayout where
  "ForceDirectedLayout_default =
     \<lparr> iterations = 100, repulsion_strength = 500, attraction_strength = 0.1,
       center_gravity = 0.1, damping = 0.9 \<rparr>"

text \<open>
  The simulation keeps three dictionaries from component id to a two-element list:
  positions, velocities and forces.  Each value list is created for its own key, so the
  lists are modelled as pairs.  Loops that read the dictionaries are folds that stop at
  the first \<^verbatim>\<open>KeyError\<close>.
\<close>

type_synonym vecdict = "(string \<times> (real \<times> real)) list"

fun fold_err :: "('a \<Rightarrow> 's \<Rightarrow> 'e + 's) \<Rightarrow> 'a list \<Rightarrow> 's \<Rightarrow> 'e + 's" where
  "fold_err f [] s = Inr s"
| "fold_err f (x # xs) s = and_then (f x s) (fold_err f xs)"

text \<open>\<^verbatim>\<open>for _ in range(n)\<close> around a step that may fail.\<close>

fun iterate :: "nat \<Rightarrow> ('s \<Rightarrow> 'e + 's) \<Rightarrow> 's \<Rightarrow> 'e + 's" where
  "iterate 0 f s = Inr s"
| "iterate (Suc n) f s = and_then (f s) (iterate n f)"

text \<open>
  Python's module-level random generator is a state the caller owns.  Its two operations
  are parameters: \<open>seed\<close> gives the state after \<^verbatim>\<open>random.seed(n)\<close>, and \<open>random\<close> gives the
  next number in \<open>[0, 1)\<close> with the state after it.  \<^verbatim>\<open>random.uniform(a, b)\<close> is
  \<^verbatim>\<open>a + (b - a) * random()\<close>.
\<close>

definition uniform :: "('g \<Rightarrow> real \<times> 'g) \<Rightarrow> real \<Rightarrow> real \<Rightarrow> 'g \<Rightarrow> real \<times> 'g" where
  "uniform random a b g = (case random g of (u, g1) \<Rightarrow> (a + (b - a) * u, g1))"

text \<open>
  The body of the loop that places the components: the state is positions, velocities
  and the generator.
\<close>

definition initial_placement ::
  "('g \<Rightarrow> real \<times> 'g) \<Rightarrow> SchematicConfig \<Rightarrow> nat \<Rightarrow> nat \<times> Component
     \<Rightarrow> vecdict \<times> vecdict \<times> 'g \<Rightarrow> vecdict \<times> vecdict \<times> 'g" where
  "initial_placement random config n = (\<lambda>(i, component) (ps, vs, g).
     (let center_x = real_of_int (width config) / 2;
          center_y = real_of_int (height config) / 2;
          radius = real_of_int (min (width config) (height config)) / 3
      in case position component of
           Some p \<Rightarrow>
             (AList.update (comp_id component) p ps,
              AList.update (comp_id component) (0, 0) vs, g)
         | None \<Rightarrow>
             (let angle = (2 * pi * real i) / real n
              in case uniform random 0.5 1.0 g of (u1, g1) \<Rightarrow>
                 (let x = center_x + radius * cos angle * u1
                  in case uniform random 0.5 1.0 g1 of (u2, g2) \<Rightarrow>
                     (let y = center_y + radius * sin angle * u2
                      in (AList.update (comp_id component) (x, y) ps,
                          AList.update (comp_id component) (0, 0) vs, g2))))))"

text \<open>The repulsion of one pair of components, added to the forces.\<close>

definition repel ::
  "ForceDirectedLayout \<Rightarrow> vecdict \<Rightarrow> Component \<Rightarrow> Component \<Rightarrow> vecdict
     \<Rightarrow> lookup_error + vecdict" where
  "repel fl ps comp1 comp2 forces =
     and_then (getitem ps (comp_id comp2)) (\<lambda>p2.
     and_then (getitem ps (comp_id comp1)) (\<lambda>p1.
       (let dx = fst p2 - fst p1;
            dy = snd p2 - snd p1;
            dist = sqrt (dx * dx + dy * dy) + 0.01;
            force = repulsion_strength fl / (dist * dist);
            fx = force * dx / dist;
            fy = force * dy / dist
        in and_then (getitem forces (comp_id comp1)) (\<lambda>f1.
           (let forces1 = AList.update (comp_id comp1) (fst f1 - fx, snd f1 - fy) forces
            in and_then (getitem forces1 (comp_id comp2)) (\<lambda>f2.
                 Inr (AList.update (comp_id comp2) (fst f2 + fx, snd f2 + fy) forces1)))))))"

text \<open>
  \<^verbatim>\<open>for i, comp1 in enumerate(components): for comp2 in components[i + 1:]\<close>.
\<close>

fun repulsion ::
  "ForceDirectedLayout \<Rightarrow> vecdict \<Rightarrow> Component list \<Rightarrow> vecdict \<Rightarrow> lookup_error + vecdict" where
  "repulsion fl ps [] forces = Inr forces"
| "repulsion fl ps (comp1 # rest) forces =
     and_then (fold_err (repel fl ps comp1) rest forces) (repulsion fl ps rest)"

text \<open>The attraction along one edge, added to the forces.\<close>

definition attract ::
  "ForceDirectedLayout \<Rightarrow> vecdict \<Rightarrow> string \<times> string \<Rightarrow> vecdict \<Rightarrow> lookup_error + vecdict" where
  "attract fl ps = (\<lambda>(from_id, to_id) forces.
     if map_of ps from_id \<noteq> None \<and> map_of ps to_id \<noteq> None then
       and_then (getitem ps to_id) (\<lambda>p2.
       and_then (getitem ps from_id) (\<lambda>p1.
         (let dx = fst p2 - fst p1;
              dy = snd p2 - snd p1;
              dist = sqrt (dx * dx + dy * dy) + 0.01;
              force = dist * attraction_strength fl;
              fx = force * dx / dist;
              fy = force * dy / dist
          in and_then (getitem forces from_id) (\<lambda>f1.
             (let forces1 = AList.update from_id (fst f1 + fx, snd f1 + fy) forces
              in and_then (getitem forces1 to_id) (\<lambda>f2.
                   Inr (AList.update to_id (fst f2 - fx, snd f2 - fy) forces1)))))))
     else Inr forces)"

text \<open>The pull of one component towards the centre of the canvas.\<close>

definition gravitate ::
  "ForceDirectedLayout \<Rightarrow> SchematicConfig \<Rightarrow> vecdict \<Rightarrow> Component \<Rightarrow> vecdict
     \<Rightarrow> lookup_error + vecdict" where
  "gravitate fl config ps component forces =
     and_then (getitem ps (comp_id component)) (\<lambda>p.
       (let dx = real_of_int (width config) / 2 - fst p;
            dy = real_of_int (height config) / 2 - snd p
        in and_then (getitem forces (comp_id component)) (\<lambda>f.
             Inr (AList.update (comp_id component)
                    (fst f + dx * center_gravity fl, snd f + dy * center_gravity fl) forces))))"

text \<open>
  The last loop of an iteration: the new velocity and position of one component, the
  position kept inside the canvas.
\<close>

definition apply_forces ::
  "ForceDirectedLayout \<Rightarrow> SchematicConfig \<Rightarrow> vecdict \<Rightarrow> Component \<Rightarrow> vecdict \<times> vecdict
     \<Rightarrow> lookup_error + vecdict \<times> vecdict" where
  "apply_forces fl config forces component = (\<lambda>(ps, vs).
     and_then (getitem vs (comp_id component)) (\<lambda>v.
     and_then (getitem forces (comp_id component)) (\<lambda>f.
       (let v1 = ((fst v + fst f) * damping fl, (snd v + snd f) * damping fl);
            vs1 = AList.update (comp_id component) v1 vs
        in and_then (getitem ps (comp_id component)) (\<lambda>p.
           (let pad = real_of_int (padding config + 50);
                x = max pad (min (real_of_int (width config) - pad) (fst p + fst v1));
                y = max pad (min (real_of_int (height config) - pad) (snd p + snd v1))
            in Inr (AList.update (comp_id component) (x, y) ps, vs1)))))))"

text \<open>One iteration of the simulation loop.\<close>

definition simulation_step ::
  "ForceDirectedLayout \<Rightarrow> Component list \<Rightarrow> (string \<times> string) list \<Rightarrow> SchematicConfig
     \<Rightarrow> vecdict \<times> vecdict \<Rightarrow> lookup_error + vecdict \<times> vecdict" where
  "simulation_step fl components edges config = (\<lambda>(ps, vs).
     (let forces0 = fold (\<lambda>c d. AList.update (comp_id c) (0, 0) d) components []
      in and_then (repulsion fl ps components forces0) (\<lambda>forces1.
         and_then (fold_err (attract fl ps) edges forces1) (\<lambda>forces2.
         and_then (fold_err (gravitate fl config ps) components forces2) (\<lambda>forces3.
           fold_err (apply_forces fl config forces3) components (ps, vs))))))"

text \<open>
  \<^verbatim>\<open>ForceDirectedLayout.calculate_positions\<close>: the result, or the \<^verbatim>\<open>KeyError\<close> of a
  failed lookup, and the state the generator is left in.
\<close>

definition force_calculate_positions ::
  "(int \<Rightarrow> 'g) \<Rightarrow> ('g \<Rightarrow> real \<times> 'g) \<Rightarrow> ForceDirectedLayout \<Rightarrow> Component list
     \<Rightarrow> Connection list \<Rightarrow> SchematicConfig \<Rightarrow> 'g \<Rightarrow> (lookup_error + LayoutResult) \<times> 'g" where
  "force_calculate_positions seed random fl components connections config g =
    (if components = [] then (Inr (empty_result config), g)
     else
       (case fold (initial_placement random config (length components))
               (enumerate0 components) ([], [], seed 42) of
          (ps0, vs0, g1) \<Rightarrow>
            (let edges = map (\<lambda>c. (from_node c, to_node c)) connections
             in (and_then
                   (iterate (nat (iterations fl))
                      (simulation_step fl components edges config) (ps0, vs0))
                   (\<lambda>(ps, vs). Inr \<lparr> positions = ps, bounds = bounds_of ps \<rparr>),
                 g1))))"

subsection \<open>The other engines and the factory\<close>

record GridLayout =
  columns :: int
  cell_width :: int
  cell_height :: int
  gap :: int

definition GridLayout_default :: GridLayout where
  "GridLayout_default = \<lparr> columns = 4, cell_width = 200, cell_height = 150, gap = 20 \<rparr>"

text \<open>An instance of one of the three engine classes.\<close>

datatype LayoutEngine =
  HierarchicalEngine HierarchicalLayout
| ForceDirectedEngine ForceDirectedLayout
| GridEngine GridLayout

fun class_name :: "LayoutEngine \<Rightarrow> string" where
  "class_name (HierarchicalEngine h) = ''HierarchicalLayout''"
| "class_name (ForceDirectedEngine f) = ''ForceDirectedLayout''"
| "class_name (GridEngine g) = ''GridLayout''"

text \<open>
  The keyword arguments \<^verbatim>\<open>**kwargs\<close> the factory hands to the constructor: names with
  integer, float or string values.  What the factory can raise: its own
  \<^verbatim>\<open>ValueError\<close> with a message, and the \<^verbatim>\<open>TypeError\<close> of a constructor called with a
  keyword it does not have.  Python stores an argument whatever its type; the records
  here are typed, so an argument that does not fit its parameter's annotation ends the
  model with \<open>IllTyped\<close>, which stands for no Python exception.
\<close>

datatype kwval = IntArg int | FloatArg real | StrArg string

datatype engine_error = ValueError string | TypeError string | IllTyped string

definition unexpected_keyword :: "string list \<Rightarrow> (string \<times> kwval) list \<Rightarrow> string option" where
  "unexpected_keyword params kwargs = find (\<lambda>k. k \<notin> set params) (map fst kwargs)"

definition int_param :: "(string \<times> kwval) list \<Rightarrow> string \<Rightarrow> int \<Rightarrow> engine_error + int" where
  "int_param kwargs k d =
    (case map_of kwargs k of
       None \<Rightarrow> Inr d
     | Some (IntArg i) \<Rightarrow> Inr i
     | Some _ \<Rightarrow> Inl (IllTyped k))"

definition float_param :: "(string \<times> kwval) list \<Rightarrow> string \<Rightarrow> real \<Rightarrow> engine_error + real" where
  "float_param kwargs k d =
    (case map_of kwargs k of
       None \<Rightarrow> Inr d
     | Some (IntArg i) \<Rightarrow> Inr (real_of_int i)
     | Some (FloatArg r) \<Rightarrow> Inr r
     | Some (StrArg s) \<Rightarrow> Inl (IllTyped k))"

definition str_param :: "(string \<times> kwval) list \<Rightarrow> string \<Rightarrow> string \<Rightarrow> engine_error + string" where
  "str_param kwargs k d =
    (case map_of kwargs k of
       None \<Rightarrow> Inr d
     | Some (StrArg s) \<Rightarrow> Inr s
     | Some _ \<Rightarrow> Inl (IllTyped k))"

text \<open>The three constructors, each with the defaults of its \<^verbatim>\<open>__init__\<close>.\<close>

definition HierarchicalLayout_init :: "(string \<times> kwval) list \<Rightarrow> engine_error + HierarchicalLayout" where
  "HierarchicalLayout_init kwargs =
    (case unexpected_keyword [''direction'', ''layer_spacing'', ''node_spacing'', ''align''] kwargs of
       Some k \<Rightarrow> Inl (TypeError k)
     | None \<Rightarrow>
         and_then (str_param kwargs ''direction'' ''TB'') (\<lambda>d.
         and_then (int_param kwargs ''layer_spacing'' 120) (\<lambda>ls.
         and_then (int_param kwargs ''node_spacing'' 100) (\<lambda>ns.
         and_then (str_param kwargs ''align'' ''center'') (\<lambda>a.
           Inr \<lparr> direction = d, layer_spacing = ls, node_spacing = ns, align = a \<rparr>)))))"

definition ForceDirectedLayout_init :: "(string \<times> kwval) list \<Rightarrow> engine_error + ForceDirectedLayout" where
  "ForceDirectedLayout_init kwargs =
    (case unexpected_keyword [''iterations'', ''repulsion_strength'', ''attraction_strength'',
            ''center_gravity'', ''damping''] kwargs of
       Some k \<Rightarrow> Inl (TypeError k)
     | None \<Rightarrow>
         and_then (int_param kwargs ''iterations'' 100) (\<lambda>n.
         and_then (float_param kwargs ''repulsion_strength'' 500) (\<lambda>r.
         and_then (float_param kwargs ''attraction_strength'' 0.1) (\<lambda>a.
         and_then (float_param kwargs ''center_gravity'' 0.1) (\<lambda>g.
         and_then (float_param kwargs ''damping'' 0.9) (\<lambda>d.
           Inr \<lparr> iterations = n, repulsion_strength = r, attraction_strength = a,
                 center_gravity = g, damping = d \<rparr>))))))"

definition GridLayout_init :: "(string \<times> kwval) list \<Rightarrow> engine_error + GridLayout" where
  "GridLayout_init kwargs =
    (case unexpected_keyword [''columns'', ''cell_width'', ''cell_height'', ''gap''] kwargs of
       Some k \<Rightarrow> Inl (TypeError k)
     | None \<Rightarrow>
         and_then (int_param kwargs ''columns'' 4) (\<lambda>c.
         and_then (int_param kwargs ''cell_width'' 200) (\<lambda>w.
         and_then (int_param kwargs ''cell_height'' 150) (\<lambda>h.
         and_then (int_param kwargs ''gap'' 20) (\<lambda>g.
           Inr \<lparr> columns = c, cell_width = w, cell_height = h, gap = g \<rparr>)))))"

text \<open>The dictionary \<^verbatim>\<open>engines\<close> of the factory: layout name to engine class.\<close>

definition engines ::
  "(string \<times> ((string \<times> kwval) list \<Rightarrow> engine_error + LayoutEngine)) list" where
  "engines = [
     (''hierarchical'', \<lambda>kwargs. and_then (HierarchicalLayout_init kwargs) (\<lambda>h. Inr (HierarchicalEngine h))),
     (''force'', \<lambda>kwargs. and_then (ForceDirectedLayout_init kwargs) (\<lambda>f. Inr (ForceDirectedEngine f))),
     (''grid'', \<lambda>kwargs. and_then (GridLayout_init kwargs) (\<lambda>g. Inr (GridEngine g)))]"

text \<open>
  \<^verbatim>\<open>str(list_of_strings)\<close> for strings without quotes or escapes: each in single quotes,
  separated by a comma and a space, in brackets.
\<close>

definition str_of_keys :: "string list \<Rightarrow> string" where
  "str_of_keys ks = ''['' @ join '', '' (map (\<lambda>k. [CHR 0x27] @ k @ [CHR 0x27]) ks) @ '']''"

text \<open>\<^verbatim>\<open>get_layout_engine\<close>.\<close>

definition get_layout_engine :: "string \<Rightarrow> (string \<times> kwval) list \<Rightarrow> engine_error + LayoutEngine" where
  "get_layout_engine layout_type kwargs =
    (case map_of engines layout_type of
       None \<Rightarrow>
         Inl (ValueError (''Unknown layout type: '' @ layout_type @ ''. Available: ''
                @ str_of_keys (map fst engines)))
     | Some engine_class \<Rightarrow> engine_class kwargs)"

subsection \<open>The position of a component under the hierarchical layout\<close>

lemma layer_components_of_empty [simp]: "layer_components_of [] l = []"
  by (simp add: layer_components_of_def)

lemma layer_components_of_add:
  "layer_components_of (add_to_layer c G) l =
     layer_components_of G l @ (if layer c = l then [c] else [])"
  by (auto simp: add_to_layer_def layer_components_of_def update_conv' Let_def
      split: option.splits)

lemma layer_components_of_fold:
  "layer_components_of (fold add_to_layer cs G) l =
     layer_components_of G l @ filter (\<lambda>c. layer c = l) cs"
  by (induction cs arbitrary: G) (simp_all add: layer_components_of_add)

lemma keys_add_to_layer:
  "fst ` set (add_to_layer c G) = insert (layer c) (fst ` set G)"
  by (simp add: add_to_layer_def Let_def dom_update)

lemma keys_fold_add:
  "fst ` set (fold add_to_layer cs G) = fst ` set G \<union> layer ` set cs"
  by (induction cs arbitrary: G) (simp_all add: keys_add_to_layer)

lemma distinct_add_to_layer:
  "distinct (map fst G) \<Longrightarrow> distinct (map fst (add_to_layer c G))"
  by (simp add: add_to_layer_def Let_def distinct_update)

lemma distinct_fold_add:
  "distinct (map fst G) \<Longrightarrow> distinct (map fst (fold add_to_layer cs G))"
  by (induction cs arbitrary: G) (simp_all add: distinct_add_to_layer)

lemma place_node_other:
  "k \<notin> comp_id ` set cs \<Longrightarrow>
     map_of (fold (place_node h cfg nls li nn) (List.enumerate n cs) ps) k = map_of ps k"
  by (induction cs arbitrary: n ps) (simp_all add: place_node_def update_conv')

lemma place_node_hit:
  "distinct (map comp_id cs) \<Longrightarrow> i < length cs \<Longrightarrow>
     map_of (fold (place_node h cfg nls li nn) (List.enumerate n cs) ps) (comp_id (cs ! i)) =
       Some (hier_position h cfg nls li nn (n + i) (cs ! i))"
proof (induction cs arbitrary: n ps i)
  case Nil
  then show ?case by simp
next
  case (Cons c cs)
  show ?case
  proof (cases i)
    case 0
    with Cons.prems show ?thesis
      by (simp add: place_node_other) (simp add: place_node_def update_conv')
  next
    case (Suc j)
    with Cons.prems Cons.IH [of j "Suc n"] show ?thesis by simp
  qed
qed

lemma place_layer_pair:
  "place_layer h cfg G nls (li, l) ps =
     fold (place_node h cfg nls li (length (layer_components_of G l)))
       (List.enumerate 0 (layer_components_of G l)) ps"
  by (simp add: place_layer_def Let_def enumerate0_def)

lemma place_layer_other:
  assumes "\<And>l. l \<in> set Ls \<Longrightarrow> k \<notin> comp_id ` set (layer_components_of G l)"
  shows "map_of (fold (place_layer h cfg G nls) (List.enumerate n Ls) ps) k = map_of ps k"
  using assms
  by (induction Ls arbitrary: n ps)
     (simp_all add: place_layer_pair place_node_other)

lemma place_layer_hit:
  assumes "distinct Ls" "i < length Ls"
    and "distinct (map comp_id (layer_components_of G (Ls ! i)))"
    and "j < length (layer_components_of G (Ls ! i))"
    and "\<And>l. l \<in> set Ls \<Longrightarrow> l \<noteq> Ls ! i \<Longrightarrow>
           comp_id (layer_components_of G (Ls ! i) ! j) \<notin> comp_id ` set (layer_components_of G l)"
  shows "map_of (fold (place_layer h cfg G nls) (List.enumerate n Ls) ps)
           (comp_id (layer_components_of G (Ls ! i) ! j)) =
         Some (hier_position h cfg nls (n + i) (length (layer_components_of G (Ls ! i))) j
                 (layer_components_of G (Ls ! i) ! j))"
  using assms
proof (induction Ls arbitrary: n ps i)
  case Nil
  then show ?case by simp
next
  case (Cons l Ls)
  show ?case
  proof (cases i)
    case 0
    have rest: "\<And>l'. l' \<in> set Ls \<Longrightarrow>
        comp_id (layer_components_of G l ! j) \<notin> comp_id ` set (layer_components_of G l')"
      using Cons.prems(1,5) 0 by auto
    show ?thesis
      using Cons.prems(3,4) 0
      by (simp add: place_layer_other [OF rest])
         (simp add: place_layer_pair place_node_hit [where n = 0, simplified])
  next
    case (Suc i')
    have "map_of (fold (place_layer h cfg G nls) (List.enumerate (Suc n) Ls)
             (place_layer h cfg G nls (n, l) ps))
           (comp_id (layer_components_of G (Ls ! i') ! j)) =
         Some (hier_position h cfg nls (Suc n + i') (length (layer_components_of G (Ls ! i'))) j
                 (layer_components_of G (Ls ! i') ! j))"
    proof (rule Cons.IH)
      show "distinct Ls" using Cons.prems(1) by simp
      show "i' < length Ls" using Cons.prems(2) Suc by simp
      show "distinct (map comp_id (layer_components_of G (Ls ! i')))"
        using Cons.prems(3) Suc by simp
      show "j < length (layer_components_of G (Ls ! i'))"
        using Cons.prems(4) Suc by simp
      fix l' assume "l' \<in> set Ls" "l' \<noteq> Ls ! i'"
      then show "comp_id (layer_components_of G (Ls ! i') ! j)
          \<notin> comp_id ` set (layer_components_of G l')"
        using Cons.prems(5) [of l'] Suc by simp
    qed
    then show ?thesis using Suc by simp
  qed
qed

lemma group_by_layer_components:
  "layer_components_of (group_by_layer cs) l = filter (\<lambda>c. layer c = l) cs"
  by (simp add: group_by_layer_def layer_components_of_fold)

lemma sorted_layers_of_set: "set (sorted_layers_of cs) = layer ` set cs"
  by (simp add: sorted_layers_of_def group_by_layer_def keys_fold_add)

lemma sorted_layers_of_distinct: "distinct (sorted_layers_of cs)"
  by (simp add: sorted_layers_of_def group_by_layer_def distinct_fold_add)

lemma sorted_layers_of_sorted: "sorted (sorted_layers_of cs)"
  by (simp add: sorted_layers_of_def)

lemma hierarchical_position_of:
  assumes ids: "distinct (map comp_id cs)" and c: "c \<in> set cs"
  shows "\<exists>i j. i < length (sorted_layers_of cs) \<and> sorted_layers_of cs ! i = layer c \<and>
           j < length (same_layer cs c) \<and> same_layer cs c ! j = c \<and>
           map_of (positions (hierarchical_calculate_positions h cs conns cfg)) (comp_id c) =
             Some (hier_position h cfg (length (sorted_layers_of cs)) i
                     (length (same_layer cs c)) j c)"
proof -
  let ?Ls = "sorted_layers_of cs" and ?G = "group_by_layer cs"
  have "layer c \<in> set ?Ls" using c by (simp add: sorted_layers_of_set)
  then obtain i where i: "i < length ?Ls" "?Ls ! i = layer c"
    by (auto simp: in_set_conv_nth)
  have "c \<in> set (same_layer cs c)" using c by (simp add: same_layer_def)
  then obtain j where j: "j < length (same_layer cs c)" "same_layer cs c ! j = c"
    by (auto simp: in_set_conv_nth)
  have grp: "layer_components_of ?G (?Ls ! i) = same_layer cs c"
    by (simp add: group_by_layer_components i same_layer_def)
  have inj: "inj_on comp_id (set cs)"
    using ids by (simp add: distinct_map)
  have elt: "layer_components_of ?G (?Ls ! i) ! j = c"
    using grp j by simp
  have other: "comp_id (layer_components_of ?G (?Ls ! i) ! j)
      \<notin> comp_id ` set (layer_components_of ?G l)" if "l \<noteq> ?Ls ! i" for l
  proof
    assume "comp_id (layer_components_of ?G (?Ls ! i) ! j)
      \<in> comp_id ` set (layer_components_of ?G l)"
    then have "comp_id c \<in> comp_id ` set (filter (\<lambda>c. layer c = l) cs)"
      unfolding elt by (simp only: group_by_layer_components)
    then obtain d where d: "d \<in> set cs" "layer d = l" "comp_id d = comp_id c"
      by auto
    with inj c have "d = c" by (auto dest: inj_onD)
    with d that i show False by simp
  qed
  have "map_of (fold (place_layer h cfg ?G (length ?Ls)) (List.enumerate 0 ?Ls) [])
          (comp_id (layer_components_of ?G (?Ls ! i) ! j)) =
        Some (hier_position h cfg (length ?Ls) (0 + i)
                (length (layer_components_of ?G (?Ls ! i))) j
                (layer_components_of ?G (?Ls ! i) ! j))"
  proof (rule place_layer_hit)
    show "distinct ?Ls" by (rule sorted_layers_of_distinct)
    show "i < length ?Ls" by (rule i)
    show "distinct (map comp_id (layer_components_of ?G (?Ls ! i)))"
      using ids by (simp add: group_by_layer_components distinct_map_filter)
    show "j < length (layer_components_of ?G (?Ls ! i))" using j grp by simp
    show "\<And>l. l \<in> set ?Ls \<Longrightarrow> l \<noteq> ?Ls ! i \<Longrightarrow>
        comp_id (layer_components_of ?G (?Ls ! i) ! j)
          \<notin> comp_id ` set (layer_components_of ?G l)"
      using other by blast
  qed
  moreover have "cs \<noteq> []" using c by auto
  ultimately have "map_of (positions (hierarchical_calculate_positions h cs conns cfg))
      (comp_id c) = Some (hier_position h cfg (length ?Ls) i (length (same_layer cs c)) j c)"
    unfolding elt grp
    by (simp add: hierarchical_calculate_positions_def Let_def enumerate0_def
        sorted_layers_of_def j)
  with i j show ?thesis by blast
qed

lemma primary_hier_position:
  "primary_coordinate h (hier_position h cfg nls i nn j c) =
    (let span = (if direction h \<in> {''TB'', ''BT''}
                 then real_of_int (height cfg - padding cfg * 2)
                 else real_of_int (width cfg - padding cfg * 2)) / real (max nls 1)
     in if direction h = ''TB'' \<or> direction h = ''LR''
        then real_of_int (padding cfg) + real i * span + span / 2
        else (if direction h = ''BT'' then real_of_int (height cfg)
              else real_of_int (width cfg))
             - real_of_int (padding cfg) - real i * span - span / 2)"
  by (simp add: primary_coordinate_def hier_position_def Let_def)



lemma hier_position_tb:
  "direction h = ''TB'' \<Longrightarrow>
   hier_position h cfg nls i nn j c =
     (if align h = ''left''
      then real_of_int (padding cfg + int j * node_spacing h) + half_width c
      else if align h = ''right''
      then real_of_int (width cfg - padding cfg - (int nn - 1 - int j) * node_spacing h)
             - half_width c
      else real_of_int (padding cfg)
             + real j * (real_of_int (width cfg - padding cfg * 2) / real (max nn 1))
             + real_of_int (width cfg - padding cfg * 2) / real (max nn 1) / 2,
      real_of_int (padding cfg)
        + real i * (real_of_int (height cfg - padding cfg * 2) / real (max nls 1))
        + real_of_int (height cfg - padding cfg * 2) / real (max nls 1) / 2)"
  by (simp add: hier_position_def Let_def)

lemma spaced_apart:
  fixes s :: int and a b :: real
  assumes "j1 \<noteq> j2" and "\<bar>a - b\<bar> < real_of_int s"
  shows "real_of_int (int j1 * s) + a \<noteq> real_of_int (int j2 * s) + b"
proof
  assume eq: "real_of_int (int j1 * s) + a = real_of_int (int j2 * s) + b"
  have s: "0 < s" using assms(2) by linarith
  from eq have "a - b = real_of_int ((int j2 - int j1) * s)"
    by (simp add: algebra_simps)
  then have "\<bar>a - b\<bar> = real_of_int (\<bar>int j2 - int j1\<bar> * s)"
    using s by (simp add: abs_mult)
  moreover have "1 \<le> \<bar>int j2 - int j1\<bar>" using assms(1) by linarith
  then have "s \<le> \<bar>int j2 - int j1\<bar> * s" using s by (simp add: mult_le_cancel_right1)
  then have "real_of_int s \<le> real_of_int (\<bar>int j2 - int j1\<bar> * s)"
    by (simp only: of_int_le_iff)
  ultimately show False using assms(2) by linarith
qed




subsection \<open>The force-directed layout returns, and returns the same result\<close>

lemma getitem_present: "k \<in> fst ` set d \<Longrightarrow> \<exists>v. getitem d k = Inr v"
  by (cases "map_of d k") (auto simp: getitem_def map_of_eq_None_iff)

lemma keys_update_present:
  "k \<in> fst ` set d \<Longrightarrow> fst ` set (AList.update k v d) = fst ` set d"
  by (auto simp: dom_update)

lemma fold_err_invariant:
  assumes "I s"
    and "\<And>x s. x \<in> set xs \<Longrightarrow> I s \<Longrightarrow> \<exists>s'. f x s = Inr s' \<and> I s'"
  shows "\<exists>s'. fold_err f xs s = Inr s' \<and> I s'"
  using assms
proof (induction xs arbitrary: s)
  case Nil
  then show ?case by simp
next
  case (Cons x xs)
  from Cons.prems obtain s1 where s1: "f x s = Inr s1" "I s1" by force
  from Cons.IH [OF s1(2)] Cons.prems(2) obtain s2 where "fold_err f xs s1 = Inr s2" "I s2"
    by force
  with s1 show ?case by (simp add: and_then_def)
qed

lemma iterate_invariant:
  assumes "I s" and "\<And>s. I s \<Longrightarrow> \<exists>s'. f s = Inr s' \<and> I s'"
  shows "\<exists>s'. iterate n f s = Inr s' \<and> I s'"
  using assms(1)
proof (induction n arbitrary: s)
  case 0
  then show ?case by simp
next
  case (Suc n)
  from assms(2) [OF Suc.prems] obtain s1 where s1: "f s = Inr s1" "I s1" by blast
  from Suc.IH [OF s1(2)] s1(1) show ?case by (simp add: and_then_def)
qed

lemma repel_keys:
  assumes "comp_id c1 \<in> fst ` set ps" "comp_id c2 \<in> fst ` set ps"
    and "comp_id c1 \<in> fst ` set forces" "comp_id c2 \<in> fst ` set forces"
  shows "\<exists>forces'. repel fl ps c1 c2 forces = Inr forces' \<and>
           fst ` set forces' = fst ` set forces"
proof -
  from assms obtain p1 p2 f1 where 1: "getitem ps (comp_id c1) = Inr p1"
    "getitem ps (comp_id c2) = Inr p2" "getitem forces (comp_id c1) = Inr f1"
    by (meson getitem_present)
  let ?dx = "fst p2 - fst p1" and ?dy = "snd p2 - snd p1"
  let ?dist = "sqrt (?dx * ?dx + ?dy * ?dy) + 0.01"
  let ?fx = "repulsion_strength fl / (?dist * ?dist) * ?dx / ?dist"
  let ?fy = "repulsion_strength fl / (?dist * ?dist) * ?dy / ?dist"
  let ?forces1 = "AList.update (comp_id c1) (fst f1 - ?fx, snd f1 - ?fy) forces"
  have k1: "fst ` set ?forces1 = fst ` set forces"
    using assms(3) by (rule keys_update_present)
  with assms(4) obtain f2 where 2: "getitem ?forces1 (comp_id c2) = Inr f2"
    by (metis getitem_present)
  have "repel fl ps c1 c2 forces =
      Inr (AList.update (comp_id c2) (fst f2 + ?fx, snd f2 + ?fy) ?forces1)"
    using 1 2 by (simp add: repel_def and_then_def Let_def)
  moreover have "fst ` set (AList.update (comp_id c2) (fst f2 + ?fx, snd f2 + ?fy) ?forces1)
      = fst ` set forces"
    using assms(4) k1 by (simp add: keys_update_present)
  ultimately show ?thesis by simp
qed

lemma repulsion_keys:
  assumes "comp_id ` set cs \<subseteq> fst ` set ps" "comp_id ` set cs \<subseteq> fst ` set forces"
  shows "\<exists>forces'. repulsion fl ps cs forces = Inr forces' \<and>
           fst ` set forces' = fst ` set forces"
  using assms
proof (induction cs arbitrary: forces)
  case Nil
  then show ?case by simp
next
  case (Cons c cs)
  let ?I = "\<lambda>f :: vecdict. fst ` set f = fst ` set forces"
  have "\<exists>f1. fold_err (repel fl ps c) cs forces = Inr f1 \<and> ?I f1"
  proof (rule fold_err_invariant)
    show "?I forces" by simp
    fix c2 f assume c2: "c2 \<in> set cs" and f: "?I f"
    have "comp_id c \<in> fst ` set ps" "comp_id c2 \<in> fst ` set ps"
      using Cons.prems(1) c2 by auto
    moreover have "comp_id c \<in> fst ` set f" "comp_id c2 \<in> fst ` set f"
      using Cons.prems(2) c2 f by auto
    ultimately obtain f' where "repel fl ps c c2 f = Inr f'" "fst ` set f' = fst ` set f"
      using repel_keys by blast
    with f show "\<exists>f'. repel fl ps c c2 f = Inr f' \<and> ?I f'" by simp
  qed
  then obtain f1 where f1: "fold_err (repel fl ps c) cs forces = Inr f1" "?I f1" by blast
  from Cons.IH [of f1] Cons.prems f1(2)
  obtain f2 where "repulsion fl ps cs f1 = Inr f2" "fst ` set f2 = fst ` set f1" by auto
  with f1 show ?case by (simp add: and_then_def)
qed

lemma attract_keys:
  assumes "fst ` set ps = fst ` set forces"
  shows "\<exists>forces'. attract fl ps e forces = Inr forces' \<and>
           fst ` set forces' = fst ` set forces"
proof (cases e)
  case (Pair from_id to_id)
  show ?thesis
  proof (cases "map_of ps from_id \<noteq> None \<and> map_of ps to_id \<noteq> None")
    case False
    with Pair show ?thesis by (auto simp: attract_def)
  next
    case True
    then have in_ps: "from_id \<in> fst ` set ps" "to_id \<in> fst ` set ps"
      by (simp_all add: map_of_eq_None_iff)
    then obtain p1 p2 f1 where 1: "getitem ps from_id = Inr p1" "getitem ps to_id = Inr p2"
      "getitem forces from_id = Inr f1"
      using assms by (metis getitem_present)
    let ?dx = "fst p2 - fst p1" and ?dy = "snd p2 - snd p1"
    let ?dist = "sqrt (?dx * ?dx + ?dy * ?dy) + 0.01"
    let ?fx = "?dist * attraction_strength fl * ?dx / ?dist"
    let ?fy = "?dist * attraction_strength fl * ?dy / ?dist"
    let ?forces1 = "AList.update from_id (fst f1 + ?fx, snd f1 + ?fy) forces"
    have k1: "fst ` set ?forces1 = fst ` set forces"
      using in_ps(1) assms by (simp add: keys_update_present)
    with in_ps(2) assms obtain f2 where 2: "getitem ?forces1 to_id = Inr f2"
      by (metis getitem_present)
    have "attract fl ps e forces =
        Inr (AList.update to_id (fst f2 - ?fx, snd f2 - ?fy) ?forces1)"
      using Pair True 1 2 by (simp add: attract_def and_then_def Let_def)
    moreover have "fst ` set (AList.update to_id (fst f2 - ?fx, snd f2 - ?fy) ?forces1)
        = fst ` set forces"
      using in_ps(2) assms k1 by (simp add: keys_update_present)
    ultimately show ?thesis by simp
  qed
qed

lemma gravitate_keys:
  assumes "comp_id c \<in> fst ` set ps" "comp_id c \<in> fst ` set forces"
  shows "\<exists>forces'. gravitate fl cfg ps c forces = Inr forces' \<and>
           fst ` set forces' = fst ` set forces"
proof -
  from assms obtain p f where "getitem ps (comp_id c) = Inr p"
    "getitem forces (comp_id c) = Inr f"
    by (meson getitem_present)
  with assms(2) show ?thesis
    by (simp add: gravitate_def and_then_def Let_def keys_update_present)
qed

lemma apply_forces_keys:
  assumes "comp_id c \<in> fst ` set ps" "comp_id c \<in> fst ` set vs"
    and "comp_id c \<in> fst ` set forces"
  shows "\<exists>ps' vs'. apply_forces fl cfg forces c (ps, vs) = Inr (ps', vs') \<and>
           fst ` set ps' = fst ` set ps \<and> fst ` set vs' = fst ` set vs"
proof -
  from assms obtain p v f where "getitem ps (comp_id c) = Inr p"
    "getitem vs (comp_id c) = Inr v" "getitem forces (comp_id c) = Inr f"
    by (meson getitem_present)
  with assms(1,2) show ?thesis
    by (simp add: apply_forces_def and_then_def Let_def keys_update_present)
qed

lemma zero_forces_keys:
  "fst ` set (fold (\<lambda>c d. AList.update (comp_id c) (0::real, 0::real) d) cs d0) =
     fst ` set d0 \<union> comp_id ` set cs"
  by (induction cs arbitrary: d0) (auto simp: dom_update)

lemma simulation_step_keys:
  assumes ps: "fst ` set ps = comp_id ` set cs" and vs: "fst ` set vs = comp_id ` set cs"
  shows "\<exists>ps' vs'. simulation_step fl cs edges cfg (ps, vs) = Inr (ps', vs') \<and>
           fst ` set ps' = comp_id ` set cs \<and> fst ` set vs' = comp_id ` set cs"
proof -
  let ?K = "comp_id ` set cs"
  let ?f0 = "fold (\<lambda>c d. AList.update (comp_id c) (0::real, 0::real) d) cs []"
  have f0: "fst ` set ?f0 = ?K" by (simp add: zero_forces_keys)
  from repulsion_keys [of cs ps ?f0 fl] ps f0
  obtain f1 where f1: "repulsion fl ps cs ?f0 = Inr f1" "fst ` set f1 = ?K" by auto
  have "\<exists>f2. fold_err (attract fl ps) edges f1 = Inr f2 \<and> fst ` set f2 = ?K"
  proof (rule fold_err_invariant)
    show "fst ` set f1 = ?K" by (rule f1)
    fix e and f :: vecdict assume "fst ` set f = ?K"
    with attract_keys [of ps f fl e] ps
    show "\<exists>f'. attract fl ps e f = Inr f' \<and> fst ` set f' = ?K" by auto
  qed
  then obtain f2 where f2: "fold_err (attract fl ps) edges f1 = Inr f2" "fst ` set f2 = ?K"
    by blast
  have "\<exists>f3. fold_err (gravitate fl cfg ps) cs f2 = Inr f3 \<and> fst ` set f3 = ?K"
  proof (rule fold_err_invariant)
    show "fst ` set f2 = ?K" by (rule f2)
    fix c and f :: vecdict assume "c \<in> set cs" "fst ` set f = ?K"
    with gravitate_keys [of c ps f fl cfg] ps
    show "\<exists>f'. gravitate fl cfg ps c f = Inr f' \<and> fst ` set f' = ?K" by auto
  qed
  then obtain f3 where f3: "fold_err (gravitate fl cfg ps) cs f2 = Inr f3" "fst ` set f3 = ?K"
    by blast
  let ?I = "\<lambda>s :: vecdict \<times> vecdict. fst ` set (fst s) = ?K \<and> fst ` set (snd s) = ?K"
  have "\<exists>s'. fold_err (apply_forces fl cfg f3) cs (ps, vs) = Inr s' \<and> ?I s'"
  proof (rule fold_err_invariant)
    show "?I (ps, vs)" using ps vs by simp
    fix c and s :: "vecdict \<times> vecdict" assume c: "c \<in> set cs" and s: "?I s"
    obtain p v where pv: "s = (p, v)" by (cases s)
    from apply_forces_keys [of c p v f3 fl cfg] c s f3(2) pv
    show "\<exists>s'. apply_forces fl cfg f3 c s = Inr s' \<and> ?I s'" by auto
  qed
  then obtain s' where "fold_err (apply_forces fl cfg f3) cs (ps, vs) = Inr s'" "?I s'"
    by blast
  with f1 f2 f3 show ?thesis
    by (cases s') (simp add: simulation_step_def and_then_def Let_def)
qed

lemma initial_placement_shape:
  "\<exists>p g1. initial_placement random cfg n (i, c) (ps, vs, g) =
     (AList.update (comp_id c) p ps, AList.update (comp_id c) (0, 0) vs, g1)"
  by (simp add: initial_placement_def Let_def uniform_def split: option.split prod.split)
     blast

lemma initial_placement_keys:
  "fold (initial_placement random cfg n) (List.enumerate i cs) (ps, vs, g) = (ps', vs', g')
     \<Longrightarrow> fst ` set ps' = fst ` set ps \<union> comp_id ` set cs \<and>
         fst ` set vs' = fst ` set vs \<union> comp_id ` set cs"
proof (induction cs arbitrary: i ps vs g)
  case Nil
  then show ?case by simp
next
  case (Cons c cs)
  from initial_placement_shape [of random cfg n i c ps vs g]
  obtain p g1 where 1: "initial_placement random cfg n (i, c) (ps, vs, g) =
      (AList.update (comp_id c) p ps, AList.update (comp_id c) (0, 0) vs, g1)"
    by blast
  with Cons.prems
  have "fold (initial_placement random cfg n) (List.enumerate (Suc i) cs)
      (AList.update (comp_id c) p ps, AList.update (comp_id c) (0, 0) vs, g1) = (ps', vs', g')"
    by simp
  from Cons.IH [OF this] show ?case
    by (simp add: dom_update)
qed

lemma force_calculate_positions_returns:
  "\<exists>res. fst (force_calculate_positions seed random fl cs ks cfg g) = Inr res"
proof (cases "cs = []")
  case True
  then show ?thesis by (simp add: force_calculate_positions_def)
next
  case False
  obtain ps0 vs0 g1 where init:
    "fold (initial_placement random cfg (length cs)) (List.enumerate 0 cs) ([], [], seed 42) =
       (ps0, vs0, g1)"
    by (cases "fold (initial_placement random cfg (length cs)) (List.enumerate 0 cs)
                 ([], [], seed 42)")
  from initial_placement_keys [OF init]
  have keys: "fst ` set ps0 = comp_id ` set cs" "fst ` set vs0 = comp_id ` set cs" by simp_all
  let ?I = "\<lambda>s :: vecdict \<times> vecdict.
    fst ` set (fst s) = comp_id ` set cs \<and> fst ` set (snd s) = comp_id ` set cs"
  let ?edges = "map (\<lambda>c. (from_node c, to_node c)) ks"
  have "\<exists>s'. iterate (nat (iterations fl)) (simulation_step fl cs ?edges cfg) (ps0, vs0) =
      Inr s' \<and> ?I s'"
  proof (rule iterate_invariant)
    show "?I (ps0, vs0)" using keys by simp
    fix s :: "vecdict \<times> vecdict" assume s: "?I s"
    obtain p v where pv: "s = (p, v)" by (cases s)
    from simulation_step_keys [of p cs v fl ?edges cfg] s pv
    show "\<exists>s'. simulation_step fl cs ?edges cfg s = Inr s' \<and> ?I s'" by auto
  qed
  then obtain s' where
    "iterate (nat (iterations fl)) (simulation_step fl cs ?edges cfg) (ps0, vs0) = Inr s'"
    by blast
  with False init show ?thesis
    by (cases s')
       (simp add: force_calculate_positions_def enumerate0_def and_then_def Let_def)
qed


lemma iterate_fixed: "f s = Inr s \<Longrightarrow> iterate n f s = Inr s"
  by (induction n) (simp_all add: and_then_def)


subsection \<open>The factory\<close>

lemma engines_keys: "map fst engines = [''hierarchical'', ''force'', ''grid'']"
  by (simp add: engines_def)

text \<open>
  C6: for a layout name outside hierarchical, force and grid the factory fails, whatever
  the keyword arguments, with the \<^verbatim>\<open>ValueError\<close> whose message lists the three valid
  names; it has no default engine.  Called with a valid name and no keyword arguments it
  returns the default instance of the engine class of that name, and whenever it returns
  an engine, the engine's class is the one registered under the requested name.
\<close>

theorem get_layout_engine_by_name:
  \<open>(layout_type \<notin> {''hierarchical'', ''force'', ''grid''} \<longrightarrow>
      get_layout_engine layout_type kwargs =
        Inl (ValueError (''Unknown layout type: '' @ layout_type
               @ ''. Available: [\'hierarchical\', \'force\', \'grid\']''))) \<and>
    get_layout_engine ''hierarchical'' [] = Inr (HierarchicalEngine HierarchicalLayout_default) \<and>
    get_layout_engine ''force'' [] = Inr (ForceDirectedEngine ForceDirectedLayout_default) \<and>
    get_layout_engine ''grid'' [] = Inr (GridEngine GridLayout_default) \<and>
    (\<forall>e. get_layout_engine layout_type kwargs = Inr e \<longrightarrow>
       (layout_type, class_name e) \<in> {(''hierarchical'', ''HierarchicalLayout''),
          (''force'', ''ForceDirectedLayout''), (''grid'', ''GridLayout'')})\<close>
proof -
  have unknown: "get_layout_engine layout_type kwargs =
        Inl (ValueError (''Unknown layout type: '' @ layout_type
               @ ''. Available: '' @ str_of_keys [''hierarchical'', ''force'', ''grid'']))"
    if "layout_type \<notin> {''hierarchical'', ''force'', ''grid''}"
    using that by (simp add: get_layout_engine_def engines_def)
  have keys: \<open>str_of_keys [''hierarchical'', ''force'', ''grid''] =
      ''[\'hierarchical\', \'force\', \'grid\']''\<close>
    by (simp add: str_of_keys_def)
  have h: "get_layout_engine ''hierarchical'' [] = Inr (HierarchicalEngine HierarchicalLayout_default)"
    by (simp add: get_layout_engine_def engines_def HierarchicalLayout_init_def
        unexpected_keyword_def and_then_def str_param_def int_param_def
        HierarchicalLayout_default_def)
  have f: "get_layout_engine ''force'' [] = Inr (ForceDirectedEngine ForceDirectedLayout_default)"
    by (simp add: get_layout_engine_def engines_def ForceDirectedLayout_init_def
        unexpected_keyword_def and_then_def float_param_def int_param_def
        ForceDirectedLayout_default_def)
  have g: "get_layout_engine ''grid'' [] = Inr (GridEngine GridLayout_default)"
    by (simp add: get_layout_engine_def engines_def GridLayout_init_def
        unexpected_keyword_def and_then_def int_param_def GridLayout_default_def)
  have cls: "(layout_type, class_name e) \<in> {(''hierarchical'', ''HierarchicalLayout''),
          (''force'', ''ForceDirectedLayout''), (''grid'', ''GridLayout'')}"
    if "get_layout_engine layout_type kwargs = Inr e" for e
    using that
    by (auto simp: get_layout_engine_def engines_def and_then_def
        split: if_splits sum.splits)
  show ?thesis using unknown keys h f g cls by simp
qed

theorem get_layout_engine_by_name_witness:
  \<open>get_layout_engine ''circular'' [(''columns'', IntArg 2)] =
      Inl (ValueError
        ''Unknown layout type: circular. Available: [\'hierarchical\', \'force\', \'grid\']'') \<and>
    (\<exists>e. get_layout_engine ''grid'' [(''columns'', IntArg 2)] = Inr e \<and>
         class_name e = ''GridLayout'')\<close>
proof -
  have "''circular'' \<notin> {''hierarchical'', ''force'', ''grid''}" by simp
  with get_layout_engine_by_name [of "''circular''" "[(''columns'', IntArg 2)]"]
  have 1: \<open>get_layout_engine ''circular'' [(''columns'', IntArg 2)] =
      Inl (ValueError
        (''Unknown layout type: '' @ ''circular''
           @ ''. Available: [\'hierarchical\', \'force\', \'grid\']''))\<close>
    by blast
  have 2: "get_layout_engine ''grid'' [(''columns'', IntArg 2)] =
      Inr (GridEngine (GridLayout_default\<lparr>columns := 2\<rparr>))"
    by (simp add: get_layout_engine_def engines_def GridLayout_init_def
        unexpected_keyword_def and_then_def int_param_def GridLayout_default_def)
  with get_layout_engine_by_name [of "''grid''" "[(''columns'', IntArg 2)]"]
  have "(''grid'', class_name (GridEngine (GridLayout_default\<lparr>columns := 2\<rparr>))) \<in>
      {(''hierarchical'', ''HierarchicalLayout''), (''force'', ''ForceDirectedLayout''),
       (''grid'', ''GridLayout'')}"
    by blast
  then have 3: "class_name (GridEngine (GridLayout_default\<lparr>columns := 2\<rparr>)) = ''GridLayout''"
    by simp
  from 1 2 3 show ?thesis by simp
qed

section \<open>svg_renderer.py\<close>

text \<open>
  The renderer writes numbers into the markup with f-strings.  An integer of the
  configuration, the theme or the legend is written by \<^const>\<open>str_of_int\<close>; a coordinate
  or a size is written by the parameter \<open>fstr\<close>, which stands for Python's formatting of a
  number and is a function of the number's value alone.  \<^verbatim>\<open>html.escape\<close> is
  \<^const>\<open>html_escape\<close>.  The one expression of the renderer that can raise is the
  lookup \<^verbatim>\<open>positions[key]\<close>, modelled by \<^const>\<open>getitem\<close>.
\<close>

record SVGRenderer =
  renderer_theme :: SchematicTheme
  tm :: ThemeManager

text \<open>\<^verbatim>\<open>SVGRenderer.__init__\<close>.\<close>

definition SVGRenderer_init :: "ThemeManager \<Rightarrow> SVGRenderer" where
  "SVGRenderer_init theme_manager =
     \<lparr> renderer_theme = theme theme_manager, tm = theme_manager \<rparr>"

definition render_header :: "SVGRenderer \<Rightarrow> SchematicConfig \<Rightarrow> string" where
  \<open>render_header r config =
       ''<?xml version="1.0" encoding="UTF-8"?>'' @ nl @
       ''<svg width="'' @ str_of_int (width config) @ ''" height="'' @ str_of_int (height config) @ ''" viewBox="0 0 '' @ str_of_int (width config) @ '' '' @ str_of_int (height config) @ ''"'' @ nl @
       ''     xmlns="http://www.w3.org/2000/svg"'' @ nl @
       ''     role="img" aria-label="'' @ html_escape (title config) @ ''">''\<close>

definition render_footer :: "SVGRenderer \<Rightarrow> string" where
  "render_footer r = ''</svg>''"

definition render_defs :: "(real \<Rightarrow> string) \<Rightarrow> SVGRenderer \<Rightarrow> SchematicConfig \<Rightarrow> string" where
  \<open>render_defs fstr r config =
    (let c = colors (renderer_theme r);
         e = effects (renderer_theme r)
     in
       nl @
       ''  <defs>'' @ nl @
       ''    <!-- Background Gradient -->'' @ nl @
       ''    <linearGradient id="bgGradient" x1="0%" y1="0%" x2="100%" y2="100%">'' @ nl @
       ''      <stop offset="0%" style="stop-color:'' @ background c @ '';stop-opacity:1" />'' @ nl @
       ''      <stop offset="100%" style="stop-color:'' @ background_gradient_end c @ '';stop-opacity:1" />'' @ nl @
       ''    </linearGradient>'' @ nl @
       nl @
       ''    <!-- Primary Accent Gradient -->'' @ nl @
       ''    <linearGradient id="primaryGradient" x1="0%" y1="0%" x2="100%" y2="0%">'' @ nl @
       ''      <stop offset="0%" style="stop-color:'' @ primary c @ '';stop-opacity:1" />'' @ nl @
       ''      <stop offset="100%" style="stop-color:'' @ primary_light c @ '';stop-opacity:1" />'' @ nl @
       ''    </linearGradient>'' @ nl @
       nl @
       ''    <!-- Status Gradients -->'' @ nl @
       ''    <linearGradient id="activeGradient" x1="0%" y1="0%" x2="100%" y2="0%">'' @ nl @
       ''      <stop offset="0%" style="stop-color:'' @ status_active c @ '';stop-opacity:1" />'' @ nl @
       ''      <stop offset="100%" style="stop-color:#4ADE80;stop-opacity:1" />'' @ nl @
       ''    </linearGradient>'' @ nl @
       nl @
       ''    <!-- Glow Effect -->'' @ nl @
       ''    <filter id="glow" x="-20%" y="-20%" width="140%" height="140%">'' @ nl @
       ''      <feGaussianBlur stdDeviation="'' @ str_of_int (glow_blur e) @ ''" result="coloredBlur"/>'' @ nl @
       ''      <feMerge>'' @ nl @
       ''        <feMergeNode in="coloredBlur"/>'' @ nl @
       ''        <feMergeNode in="SourceGraphic"/>'' @ nl @
       ''      </feMerge>'' @ nl @
       ''    </filter>'' @ nl @
       nl @
       ''    <!-- Drop Shadow -->'' @ nl @
       ''    <filter id="shadow" x="-20%" y="-20%" width="140%" height="140%">'' @ nl @
       ''      <feDropShadow dx="'' @ str_of_int (shadow_dx e) @ ''" dy="'' @ str_of_int (shadow_dy e) @ ''" stdDeviation="'' @ str_of_int (shadow_blur e) @ ''"'' @ nl @
       ''                    flood-color="'' @ shadow_color e @ ''" flood-opacity="'' @ fstr (shadow_opacity e) @ ''"/>'' @ nl @
       ''    </filter>'' @ nl @
       nl @
       ''    <!-- Arrow Marker -->'' @ nl @
       ''    <marker id="arrowhead" markerWidth="10" markerHeight="7" refX="9" refY="3.5" orient="auto">'' @ nl @
       ''      <polygon points="0 0, 10 3.5, 0 7" fill="'' @ connection_default c @ ''"/>'' @ nl @
       ''    </marker>'' @ nl @
       nl @
       ''    <!-- Arrow Marker (Active) -->'' @ nl @
       ''    <marker id="arrowhead-active" markerWidth="10" markerHeight="7" refX="9" refY="3.5" orient="auto">'' @ nl @
       ''      <polygon points="0 0, 10 3.5, 0 7" fill="'' @ status_active c @ ''"/>'' @ nl @
       ''    </marker>'' @ nl @
       nl @
       ''    <!-- Grid Pattern -->'' @ nl @
       ''    <pattern id="gridPattern" width="40" height="40" patternUnits="userSpaceOnUse">'' @ nl @
       ''      <path d="M 40 0 L 0 0 0 40" fill="none" stroke="'' @ grid_lines c @ ''" stroke-width="0.5" opacity="'' @ fstr (grid_opacity c) @ ''"/>'' @ nl @
       ''    </pattern>'' @ nl @
       ''  </defs>'')\<close>

definition render_background :: "SVGRenderer \<Rightarrow> SchematicConfig \<Rightarrow> string" where
  \<open>render_background r config =
       nl @
       ''  <!-- Background -->'' @ nl @
       ''  <rect width="'' @ str_of_int (width config) @ ''" height="'' @ str_of_int (height config) @ ''" fill="url(#bgGradient)"/>''\<close>

definition render_grid :: "SVGRenderer \<Rightarrow> SchematicConfig \<Rightarrow> string" where
  \<open>render_grid r config =
       nl @
       ''  <!-- Grid Overlay -->'' @ nl @
       ''  <rect width="'' @ str_of_int (width config) @ ''" height="'' @ str_of_int (height config) @ ''" fill="url(#gridPattern)" opacity="0.5"/>''\<close>

definition render_rounded_rect ::
  "(real \<Rightarrow> string) \<Rightarrow> SVGRenderer \<Rightarrow> Component \<Rightarrow> real \<Rightarrow> real \<Rightarrow> real \<Rightarrow> real
     \<Rightarrow> string \<Rightarrow> string \<Rightarrow> string \<Rightarrow> string" where
  \<open>render_rounded_rect fstr r component x y w h fill border status_color =
    (let c = colors (renderer_theme r);
         t = typography (renderer_theme r);
         e = effects (renderer_theme r);
         rx = x - w / 2;
         ry = y - h / 2;
         indicator =
          nl @
          ''      <circle cx="'' @ fstr (rx + 12) @ ''" cy="'' @ fstr (ry + 12) @ ''" r="5" fill="'' @ status_color @ ''"/>'';
         icon =
           (if comp_type component = AI then
               nl @
               ''      <text x="'' @ fstr (rx + w - 15) @ ''" y="'' @ fstr (ry + 18) @ ''" font-family="'' @ font_display t @ ''" font-size="14" fill="'' @ primary c @ ''">&#129504;</text>''
            else [])
     in
       nl @
       ''    <g class="component" data-id="'' @ comp_id component @ ''" data-type="'' @ ComponentType_value (comp_type component) @ ''">'' @ nl @
       ''      <rect x="'' @ fstr rx @ ''" y="'' @ fstr ry @ ''" width="'' @ fstr w @ ''" height="'' @ fstr h @ ''"'' @ nl @
       ''            rx="'' @ str_of_int (radius_md e) @ ''" fill="'' @ fill @ ''" stroke="'' @ border @ ''" stroke-width="2"/>'' @ nl @
       ''      '' @ indicator @ icon @ nl @
       ''      <text x="'' @ fstr x @ ''" y="'' @ fstr (y - 2) @ ''" text-anchor="middle"'' @ nl @
       ''            font-family="'' @ font_display t @ ''" font-size="'' @ str_of_int (label_size t) @ ''" font-weight="'' @ str_of_int (weight_semibold t) @ ''"'' @ nl @
       ''            fill="'' @ text_primary c @ ''">'' @ html_escape (label component) @ ''</text>'' @ nl @
       ''      <text x="'' @ fstr x @ ''" y="'' @ fstr (y + 14) @ ''" text-anchor="middle"'' @ nl @
       ''            font-family="'' @ font_mono t @ ''" font-size="'' @ str_of_int (sublabel_size t) @ ''"'' @ nl @
       ''            fill="'' @ text_secondary c @ ''">'' @ html_escape (sublabel component) @ ''</text>'' @ nl @
       ''    </g>'')\<close>

definition render_cylinder ::
  "(real \<Rightarrow> string) \<Rightarrow> SVGRenderer \<Rightarrow> Component \<Rightarrow> real \<Rightarrow> real \<Rightarrow> real \<Rightarrow> real
     \<Rightarrow> string \<Rightarrow> string \<Rightarrow> string \<Rightarrow> string" where
  \<open>render_cylinder fstr r component x y w h fill border status_color =
    (let c = colors (renderer_theme r);
         t = typography (renderer_theme r);
         rx = x - w / 2;
         ry = y - h / 2;
         ellipse_ry = 10
     in
       nl @
       ''    <g class="component" data-id="'' @ comp_id component @ ''" data-type="database">'' @ nl @
       ''      <!-- Cylinder body -->'' @ nl @
       ''      <path d="M '' @ fstr rx @ '' '' @ fstr (ry + ellipse_ry) @ nl @
       ''               L '' @ fstr rx @ '' '' @ fstr (ry + h - ellipse_ry) @ nl @
       ''               A '' @ fstr (w / 2) @ '' '' @ fstr ellipse_ry @ '' 0 0 0 '' @ fstr (rx + w) @ '' '' @ fstr (ry + h - ellipse_ry) @ nl @
       ''               L '' @ fstr (rx + w) @ '' '' @ fstr (ry + ellipse_ry) @ nl @
       ''               A '' @ fstr (w / 2) @ '' '' @ fstr ellipse_ry @ '' 0 0 0 '' @ fstr rx @ '' '' @ fstr (ry + ellipse_ry) @ ''"'' @ nl @
       ''            fill="'' @ fill @ ''" stroke="'' @ border @ ''" stroke-width="2"/>'' @ nl @
       ''      <!-- Top ellipse -->'' @ nl @
       ''      <ellipse cx="'' @ fstr x @ ''" cy="'' @ fstr (ry + ellipse_ry) @ ''" rx="'' @ fstr (w / 2) @ ''" ry="'' @ fstr ellipse_ry @ ''"'' @ nl @
       ''               fill="'' @ fill @ ''" stroke="'' @ border @ ''" stroke-width="2"/>'' @ nl @
       ''      <circle cx="'' @ fstr (rx + 12) @ ''" cy="'' @ fstr (ry + ellipse_ry + 8) @ ''" r="4" fill="'' @ status_color @ ''"/>'' @ nl @
       ''      <text x="'' @ fstr x @ ''" y="'' @ fstr (y + 5) @ ''" text-anchor="middle"'' @ nl @
       ''            font-family="'' @ font_display t @ ''" font-size="'' @ str_of_int (label_size t) @ ''" font-weight="'' @ str_of_int (weight_semibold t) @ ''"'' @ nl @
       ''            fill="'' @ text_primary c @ ''">'' @ html_escape (label component) @ ''</text>'' @ nl @
       ''      <text x="'' @ fstr x @ ''" y="'' @ fstr (y + 20) @ ''" text-anchor="middle"'' @ nl @
       ''            font-family="'' @ font_mono t @ ''" font-size="'' @ str_of_int (sublabel_size t) @ ''"'' @ nl @
       ''            fill="'' @ text_secondary c @ ''">'' @ html_escape (sublabel component) @ ''</text>'' @ nl @
       ''    </g>'')\<close>

definition render_hexagon ::
  "(real \<Rightarrow> string) \<Rightarrow> SVGRenderer \<Rightarrow> Component \<Rightarrow> real \<Rightarrow> real \<Rightarrow> real \<Rightarrow> real
     \<Rightarrow> string \<Rightarrow> string \<Rightarrow> string \<Rightarrow> string" where
  \<open>render_hexagon fstr r component x y w h fill border status_color =
    (let c = colors (renderer_theme r);
         t = typography (renderer_theme r);
         hw = w / 2;
         hh = h / 2;
         indent = w * 0.2;
         points =
            fstr (x - hw + indent) @ '','' @ fstr (y - hh) @ '' '' @ fstr (x + hw - indent) @ '','' @ fstr (y - hh) @ '' '' @ fstr (x + hw) @ '','' @ fstr y @ '' '' @ fstr (x + hw - indent) @ '','' @ fstr (y + hh) @ '' '' @ fstr (x - hw + indent) @ '','' @ fstr (y + hh) @ '' '' @ fstr (x - hw) @ '','' @ fstr y
     in
       nl @
       ''    <g class="component" data-id="'' @ comp_id component @ ''" data-type="gpu">'' @ nl @
       ''      <polygon points="'' @ points @ ''" fill="'' @ fill @ ''" stroke="'' @ border @ ''" stroke-width="2"/>'' @ nl @
       ''      <circle cx="'' @ fstr (x - hw + indent + 10) @ ''" cy="'' @ fstr (y - hh + 12) @ ''" r="4" fill="'' @ status_color @ ''"/>'' @ nl @
       ''      <text x="'' @ fstr x @ ''" y="'' @ fstr (y - 2) @ ''" text-anchor="middle"'' @ nl @
       ''            font-family="'' @ font_display t @ ''" font-size="'' @ str_of_int (label_size t) @ ''" font-weight="'' @ str_of_int (weight_semibold t) @ ''"'' @ nl @
       ''            fill="'' @ text_primary c @ ''">'' @ html_escape (label component) @ ''</text>'' @ nl @
       ''      <text x="'' @ fstr x @ ''" y="'' @ fstr (y + 14) @ ''" text-anchor="middle"'' @ nl @
       ''            font-family="'' @ font_mono t @ ''" font-size="'' @ str_of_int (sublabel_size t) @ ''"'' @ nl @
       ''            fill="'' @ text_secondary c @ ''">'' @ html_escape (sublabel component) @ ''</text>'' @ nl @
       ''    </g>'')\<close>

definition render_parallelogram ::
  "(real \<Rightarrow> string) \<Rightarrow> SVGRenderer \<Rightarrow> Component \<Rightarrow> real \<Rightarrow> real \<Rightarrow> real \<Rightarrow> real
     \<Rightarrow> string \<Rightarrow> string \<Rightarrow> string \<Rightarrow> string" where
  \<open>render_parallelogram fstr r component x y w h fill border status_color =
    (let c = colors (renderer_theme r);
         t = typography (renderer_theme r);
         hw = w / 2;
         hh = h / 2;
         skew = 15;
         points =
            fstr (x - hw + skew) @ '','' @ fstr (y - hh) @ '' '' @ fstr (x + hw + skew) @ '','' @ fstr (y - hh) @ '' '' @ fstr (x + hw - skew) @ '','' @ fstr (y + hh) @ '' '' @ fstr (x - hw - skew) @ '','' @ fstr (y + hh)
     in
       nl @
       ''    <g class="component" data-id="'' @ comp_id component @ ''" data-type="queue">'' @ nl @
       ''      <polygon points="'' @ points @ ''" fill="'' @ fill @ ''" stroke="'' @ border @ ''" stroke-width="2"/>'' @ nl @
       ''      <circle cx="'' @ fstr (x - hw + skew + 10) @ ''" cy="'' @ fstr (y - hh + 10) @ ''" r="4" fill="'' @ status_color @ ''"/>'' @ nl @
       ''      <text x="'' @ fstr x @ ''" y="'' @ fstr (y + 4) @ ''" text-anchor="middle"'' @ nl @
       ''            font-family="'' @ font_display t @ ''" font-size="'' @ str_of_int (label_size t) @ ''" font-weight="'' @ str_of_int (weight_semibold t) @ ''"'' @ nl @
       ''            fill="'' @ text_primary c @ ''">'' @ html_escape (label component) @ ''</text>'' @ nl @
       ''    </g>'')\<close>

definition render_external ::
  "(real \<Rightarrow> string) \<Rightarrow> SVGRenderer \<Rightarrow> Component \<Rightarrow> real \<Rightarrow> real \<Rightarrow> real \<Rightarrow> real
     \<Rightarrow> string \<Rightarrow> string \<Rightarrow> string" where
  \<open>render_external fstr r component x y w h border status_color =
    (let c = colors (renderer_theme r);
         t = typography (renderer_theme r);
         e = effects (renderer_theme r);
         rx = x - w / 2;
         ry = y - h / 2
     in
       nl @
       ''    <g class="component" data-id="'' @ comp_id component @ ''" data-type="external">'' @ nl @
       ''      <rect x="'' @ fstr rx @ ''" y="'' @ fstr ry @ ''" width="'' @ fstr w @ ''" height="'' @ fstr h @ ''"'' @ nl @
       ''            rx="'' @ str_of_int (radius_md e) @ ''" fill="none" stroke="'' @ text_muted c @ ''" stroke-width="2" stroke-dasharray="5,5"/>'' @ nl @
       ''      <circle cx="'' @ fstr (rx + 12) @ ''" cy="'' @ fstr (ry + 12) @ ''" r="4" fill="'' @ status_color @ ''"/>'' @ nl @
       ''      <text x="'' @ fstr x @ ''" y="'' @ fstr y @ ''" text-anchor="middle"'' @ nl @
       ''            font-family="'' @ font_display t @ ''" font-size="'' @ str_of_int (label_size t) @ ''" font-weight="'' @ str_of_int (weight_semibold t) @ ''"'' @ nl @
       ''            fill="'' @ text_secondary c @ ''">'' @ html_escape (label component) @ ''</text>'' @ nl @
       ''    </g>'')\<close>

text \<open>\<^verbatim>\<open>SVGRenderer._render_component\<close>: the shape follows the component's type.\<close>

definition render_component ::
  "(real \<Rightarrow> string) \<Rightarrow> SVGRenderer \<Rightarrow> Component \<Rightarrow> real \<Rightarrow> real \<Rightarrow> string" where
  "render_component fstr r component x y =
    (let w = (case comp_size component of Some sz \<Rightarrow> fst sz | None \<Rightarrow> 140);
         h = (case comp_size component of Some sz \<Rightarrow> snd sz | None \<Rightarrow> 60);
         fill = get_component_fill (tm r) (ComponentType_value (comp_type component));
         border = get_component_border (tm r) (ComponentType_value (comp_type component))
                    (ComponentStatus_value (status component));
         status_color = get_status_color (tm r) (ComponentStatus_value (status component))
     in if comp_type component = DATABASE then
          render_cylinder fstr r component x y w h fill border status_color
        else if comp_type component = GPU then
          render_hexagon fstr r component x y w h fill border status_color
        else if comp_type component = QUEUE then
          render_parallelogram fstr r component x y w h fill border status_color
        else if comp_type component = EXTERNAL then
          render_external fstr r component x y w h border status_color
        else
          render_rounded_rect fstr r component x y w h fill border status_color)"

text \<open>
  The path of a connection, as \<^verbatim>\<open>_render_connection\<close> builds it.  The source computes
  \<^verbatim>\<open>ctrl_offset = abs(y2 - y1) * 0.3\<close> before the path and never reads it.
\<close>

definition connection_path :: "(real \<Rightarrow> string) \<Rightarrow> real \<Rightarrow> real \<Rightarrow> real \<Rightarrow> real \<Rightarrow> string" where
  "connection_path fstr x1 y1 x2 y2 =
    (let mid_x = (x1 + x2) / 2;
         ctrl_offset = \<bar>y2 - y1\<bar> * 0.3
     in
            ''M '' @ fstr x1 @ '' '' @ fstr y1 @ '' C '' @ fstr mid_x @ '' '' @ fstr y1 @ '', '' @ fstr mid_x @ '' '' @ fstr y2 @ '', '' @ fstr x2 @ '' '' @ fstr y2)"

text \<open>\<^verbatim>\<open>SVGRenderer._render_connection\<close>.\<close>

definition render_connection ::
  "(real \<Rightarrow> string) \<Rightarrow> SVGRenderer \<Rightarrow> Connection \<Rightarrow> real \<Rightarrow> real \<Rightarrow> real \<Rightarrow> real \<Rightarrow> string" where
  \<open>render_connection fstr r conn x1 y1 x2 y2 =
    (let c = colors (renderer_theme r);
         t = typography (renderer_theme r);
         color = (case color_override conn of
                    Some ov \<Rightarrow> if ov \<noteq> [] then ov else connection_default c
                  | None \<Rightarrow> connection_default c);
         marker = ''arrowhead'';
         stroke_dasharray =
           (if style conn = DASHED then ''stroke-dasharray="5,5"''
            else if style conn = DOTTED then ''stroke-dasharray="2,2"''
            else []);
         mid_x = (x1 + x2) / 2;
         path = connection_path fstr x1 y1 x2 y2;
         label_part =
           (if conn_label conn \<noteq> [] then
              (let label_x = mid_x;
                   label_y = (y1 + y2) / 2 - 8
               in
               nl @
               ''      <text x="'' @ fstr label_x @ ''" y="'' @ fstr label_y @ ''" text-anchor="middle"'' @ nl @
               ''            font-family="'' @ font_mono t @ ''" font-size="'' @ str_of_int (sublabel_size t) @ ''"'' @ nl @
               ''            fill="'' @ text_secondary c @ ''">'' @ html_escape (conn_label conn) @ ''</text>'')
            else [])
     in
       nl @
       ''    <g class="connection" data-from="'' @ from_node conn @ ''" data-to="'' @ to_node conn @ ''">'' @ nl @
       ''      <path d="'' @ path @ ''" fill="none" stroke="'' @ color @ ''" stroke-width="2"'' @ nl @
       ''            marker-end="url(#'' @ marker @ '')" '' @ stroke_dasharray @ ''/>'' @ nl @
       ''      '' @ label_part @ nl @
       ''    </g>'')\<close>

text \<open>The loop of \<^verbatim>\<open>_render_components\<close> over the components, appending to \<open>parts\<close>.\<close>

fun components_loop ::
  "(real \<Rightarrow> string) \<Rightarrow> SVGRenderer \<Rightarrow> (string \<times> (real \<times> real)) list \<Rightarrow> Component list
     \<Rightarrow> string list \<Rightarrow> lookup_error + string list" where
  "components_loop fstr r pos [] parts = Inr parts"
| "components_loop fstr r pos (component # rest) parts =
     (if map_of pos (comp_id component) = None then components_loop fstr r pos rest parts
      else
        and_then (getitem pos (comp_id component)) (\<lambda>(x, y).
          components_loop fstr r pos rest (parts @ [render_component fstr r component x y])))"

text \<open>\<^verbatim>\<open>SVGRenderer._render_components\<close>.\<close>

definition render_components ::
  "(real \<Rightarrow> string) \<Rightarrow> SVGRenderer \<Rightarrow> Component list \<Rightarrow> (string \<times> (real \<times> real)) list
     \<Rightarrow> lookup_error + string" where
  \<open>render_components fstr r components pos =
     and_then
       (components_loop fstr r pos components
          [nl @ ''  <!-- Components Layer -->'',
           ''  <g class="components-layer" filter="url(#shadow)">''])
       (\<lambda>parts. Inr (join nl (parts @ [''  </g>''])))\<close>

text \<open>The dictionary \<^verbatim>\<open>comp_lookup\<close>: a later component replaces an earlier one of its id.\<close>

definition comp_lookup :: "Component list \<Rightarrow> (string \<times> Component) list" where
  "comp_lookup components = fold (\<lambda>c m. AList.update (comp_id c) c m) components []"

text \<open>
  The end points of a connection whose two nodes have the positions \<open>from_pos\<close> and
  \<open>to_pos\<close>: moved to the right edge of the source and the left edge of the target
  where the component and its size are known.
\<close>

definition connection_endpoints ::
  "(string \<times> Component) list \<Rightarrow> Connection \<Rightarrow> real \<times> real \<Rightarrow> real \<times> real
     \<Rightarrow> (real \<times> real) \<times> (real \<times> real)" where
  "connection_endpoints lookup conn from_pos to_pos =
    (let from_comp = map_of lookup (from_node conn);
         to_comp = map_of lookup (to_node conn);
         from_x = fst from_pos; from_y = snd from_pos;
         to_x = fst to_pos; to_y = snd to_pos;
         from_x1 = (case from_comp of
                      Some fc \<Rightarrow> (case comp_size fc of Some sz \<Rightarrow> from_x + fst sz / 2
                                 | None \<Rightarrow> from_x)
                    | None \<Rightarrow> from_x);
         to_x1 = (case to_comp of
                    Some tc \<Rightarrow> (case comp_size tc of Some sz \<Rightarrow> to_x - fst sz / 2
                               | None \<Rightarrow> to_x)
                  | None \<Rightarrow> to_x)
     in ((from_x1, from_y), (to_x1, to_y)))"

text \<open>The loop of \<^verbatim>\<open>_render_connections\<close> over the connections.\<close>

fun connections_loop ::
  "(real \<Rightarrow> string) \<Rightarrow> SVGRenderer \<Rightarrow> (string \<times> (real \<times> real)) list
     \<Rightarrow> (string \<times> Component) list \<Rightarrow> Connection list \<Rightarrow> string list
     \<Rightarrow> lookup_error + string list" where
  "connections_loop fstr r pos lookup [] parts = Inr parts"
| "connections_loop fstr r pos lookup (conn # rest) parts =
     (if map_of pos (from_node conn) = None \<or> map_of pos (to_node conn) = None
      then connections_loop fstr r pos lookup rest parts
      else
        and_then (getitem pos (from_node conn)) (\<lambda>from_pos.
        and_then (getitem pos (to_node conn)) (\<lambda>to_pos.
          (case connection_endpoints lookup conn from_pos to_pos of
             ((from_x, from_y), (to_x, to_y)) \<Rightarrow>
               connections_loop fstr r pos lookup rest
                 (parts @ [render_connection fstr r conn from_x from_y to_x to_y])))))"

text \<open>\<^verbatim>\<open>SVGRenderer._render_connections\<close>.\<close>

definition render_connections ::
  "(real \<Rightarrow> string) \<Rightarrow> SVGRenderer \<Rightarrow> Connection list \<Rightarrow> (string \<times> (real \<times> real)) list
     \<Rightarrow> Component list \<Rightarrow> lookup_error + string" where
  \<open>render_connections fstr r connections pos components =
     and_then
       (connections_loop fstr r pos (comp_lookup components) connections
          [nl @ ''  <!-- Connections Layer -->'', ''  <g class="connections-layer">''])
       (\<lambda>parts. Inr (join nl (parts @ [''  </g>''])))\<close>

definition render_title :: "SVGRenderer \<Rightarrow> SchematicConfig \<Rightarrow> string" where
  \<open>render_title r config =
    (let c = colors (renderer_theme r);
         t = typography (renderer_theme r)
     in
       nl @
       ''  <!-- Title -->'' @ nl @
       ''  <text x="'' @ str_of_int (padding config) @ ''" y="'' @ str_of_int (padding config + 5) @ ''"'' @ nl @
       ''        font-family="'' @ font_display t @ ''" font-size="'' @ str_of_int (title_size t) @ ''" font-weight="'' @ str_of_int (weight_bold t) @ ''"'' @ nl @
       ''        fill="'' @ text_primary c @ ''">'' @ html_escape (title config) @ ''</text>'')\<close>

definition render_legend :: "SVGRenderer \<Rightarrow> SchematicConfig \<Rightarrow> string" where
  \<open>render_legend r config =
    (let c = colors (renderer_theme r);
         t = typography (renderer_theme r);
         legend_x = width config - 150;
         legend_y = height config - 80
     in
       nl @
       ''  <!-- Legend -->'' @ nl @
       ''  <g class="legend" transform="translate('' @ str_of_int legend_x @ '', '' @ str_of_int legend_y @ '')">'' @ nl @
       ''    <text x="0" y="0" font-family="'' @ font_display t @ ''" font-size="'' @ str_of_int (sublabel_size t) @ ''" font-weight="'' @ str_of_int (weight_semibold t) @ ''" fill="'' @ text_secondary c @ ''">Status</text>'' @ nl @
       ''    <circle cx="8" cy="15" r="4" fill="'' @ status_active c @ ''"/>'' @ nl @
       ''    <text x="18" y="18" font-family="'' @ font_mono t @ ''" font-size="'' @ str_of_int (sublabel_size t) @ ''" fill="'' @ text_secondary c @ ''">Active</text>'' @ nl @
       ''    <circle cx="8" cy="30" r="4" fill="'' @ status_pending c @ ''"/>'' @ nl @
       ''    <text x="18" y="33" font-family="'' @ font_mono t @ ''" font-size="'' @ str_of_int (sublabel_size t) @ ''" fill="'' @ text_secondary c @ ''">Pending</text>'' @ nl @
       ''    <circle cx="8" cy="45" r="4" fill="'' @ status_error c @ ''"/>'' @ nl @
       ''    <text x="18" y="48" font-family="'' @ font_mono t @ ''" font-size="'' @ str_of_int (sublabel_size t) @ ''" fill="'' @ text_secondary c @ ''">Error</text>'' @ nl @
       ''  </g>'')\<close>

definition render_version_badge :: "SVGRenderer \<Rightarrow> SchematicConfig \<Rightarrow> string" where
  \<open>render_version_badge r config =
    (let c = colors (renderer_theme r);
         t = typography (renderer_theme r);
         badge_x = width config - 110;
         badge_y = padding config
     in
       nl @
       ''  <!-- Version Badge -->'' @ nl @
       ''  <g class="version-badge">'' @ nl @
       ''    <rect x="'' @ str_of_int badge_x @ ''" y="'' @ str_of_int badge_y @ ''" width="90" height="24" rx="12" fill="'' @ primary c @ ''"/>'' @ nl @
       ''    <text x="'' @ str_of_int (badge_x + 45) @ ''" y="'' @ str_of_int (badge_y + 16) @ ''" text-anchor="middle"'' @ nl @
       ''          font-family="'' @ font_display t @ ''" font-size="'' @ str_of_int (badge_size t) @ ''" font-weight="'' @ str_of_int (weight_semibold t) @ ''"'' @ nl @
       ''          fill="#FFFFFF">'' @ html_escape (version_badge config) @ ''</text>'' @ nl @
       ''  </g>'')\<close>

text \<open>The text element \<^verbatim>\<open>_render_annotations\<close> appends for one annotation.\<close>

definition render_annotation :: "(real \<Rightarrow> string) \<Rightarrow> SVGRenderer \<Rightarrow> Annotation \<Rightarrow> string" where
  \<open>render_annotation fstr r ann =
    (let c = colors (renderer_theme r);
         t = typography (renderer_theme r);
         size1 = (if ann_style ann = ''title'' then title_size t
                  else if ann_style ann = ''subtitle'' then subtitle_size t
                  else label_size t);
         weight = (if ann_style ann = ''title'' then weight_bold t
                   else if ann_style ann = ''subtitle'' then weight_semibold t
                   else weight_regular t);
         color = (if ann_style ann = ''title'' then text_primary c
                  else if ann_style ann = ''subtitle'' then text_secondary c
                  else if ann_style ann = ''note'' then text_muted c
                  else text_secondary c)
     in
            nl @
            ''    <text x="'' @ fstr (fst (ann_position ann)) @ ''" y="'' @ fstr (snd (ann_position ann)) @ ''" text-anchor="'' @ anchor ann @ ''"'' @ nl @
            ''          font-family="'' @ font_display t @ ''" font-size="'' @ str_of_int size1 @ ''" font-weight="'' @ str_of_int weight @ ''"'' @ nl @
            ''          fill="'' @ color @ ''">'' @ html_escape (ann_text ann) @ ''</text>'')\<close>

text \<open>\<^verbatim>\<open>SVGRenderer._render_annotations\<close>.\<close>

definition render_annotations :: "(real \<Rightarrow> string) \<Rightarrow> SVGRenderer \<Rightarrow> Annotation list \<Rightarrow> string" where
  \<open>render_annotations fstr r annotations =
     join nl ([nl @ ''  <!-- Annotations Layer -->'', ''  <g class="annotations-layer">'']
              @ map (render_annotation fstr r) annotations @ [''  </g>''])\<close>

text \<open>\<^verbatim>\<open>SVGRenderer.render\<close>.\<close>

definition render ::
  "(real \<Rightarrow> string) \<Rightarrow> SVGRenderer \<Rightarrow> Component list \<Rightarrow> Connection list
     \<Rightarrow> (string \<times> (real \<times> real)) list \<Rightarrow> SchematicConfig \<Rightarrow> Annotation list option
     \<Rightarrow> lookup_error + string" where
  "render fstr r components connections pos config annotations =
    (let parts0 = [render_header r config, render_defs fstr r config, render_background r config];
         parts1 = (if show_grid config then parts0 @ [render_grid r config] else parts0)
     in and_then (render_connections fstr r connections pos components) (\<lambda>conns_markup.
        and_then (render_components fstr r components pos) (\<lambda>comps_markup.
          (let parts2 = parts1 @ [conns_markup];
               parts3 = parts2 @ [comps_markup];
               parts4 = (case annotations of
                           Some anns \<Rightarrow>
                             if anns \<noteq> [] then parts3 @ [render_annotations fstr r anns]
                             else parts3
                         | None \<Rightarrow> parts3);
               parts5 = (if show_title config then parts4 @ [render_title r config] else parts4);
               parts6 = (if show_legend config then parts5 @ [render_legend r config]
                         else parts5);
               parts7 = (if version_badge config \<noteq> []
                         then parts6 @ [render_version_badge r config] else parts6);
               parts8 = parts7 @ [render_footer r]
           in Inr (join nl parts8)))))"

text \<open>
  For the statements below.  What one component, or one connection, adds to its layer: its
  markup at its position when the position map holds its id (both ids, for a
  connection), and nothing otherwise.  The components and the connections a position map
  covers.
\<close>

definition component_markup ::
  "(real \<Rightarrow> string) \<Rightarrow> SVGRenderer \<Rightarrow> (string \<times> (real \<times> real)) list \<Rightarrow> Component
     \<Rightarrow> string list" where
  "component_markup fstr r pos component =
    (case map_of pos (comp_id component) of
       None \<Rightarrow> []
     | Some (x, y) \<Rightarrow> [render_component fstr r component x y])"

definition connection_markup ::
  "(real \<Rightarrow> string) \<Rightarrow> SVGRenderer \<Rightarrow> (string \<times> (real \<times> real)) list
     \<Rightarrow> (string \<times> Component) list \<Rightarrow> Connection \<Rightarrow> string list" where
  "connection_markup fstr r pos lookup conn =
    (case (map_of pos (from_node conn), map_of pos (to_node conn)) of
       (Some from_pos, Some to_pos) \<Rightarrow>
         (case connection_endpoints lookup conn from_pos to_pos of
            ((from_x, from_y), (to_x, to_y)) \<Rightarrow>
              [render_connection fstr r conn from_x from_y to_x to_y])
     | _ \<Rightarrow> [])"

definition positioned_components ::
  "(string \<times> (real \<times> real)) list \<Rightarrow> Component list \<Rightarrow> Component list" where
  "positioned_components pos components =
     filter (\<lambda>c. map_of pos (comp_id c) \<noteq> None) components"

definition positioned_connections ::
  "(string \<times> (real \<times> real)) list \<Rightarrow> Connection list \<Rightarrow> Connection list" where
  "positioned_connections pos connections =
     filter (\<lambda>k. map_of pos (from_node k) \<noteq> None \<and> map_of pos (to_node k) \<noteq> None)
       connections"

subsection \<open>Components and connections without a position\<close>

lemma components_loop_markup:
  "components_loop fstr r pos cs parts =
     Inr (parts @ concat (map (component_markup fstr r pos) cs))"
  by (induction cs arbitrary: parts)
     (auto simp: component_markup_def getitem_def and_then_def)

lemma connections_loop_markup:
  "connections_loop fstr r pos lookup ks parts =
     Inr (parts @ concat (map (connection_markup fstr r pos lookup) ks))"
  by (induction ks arbitrary: parts)
     (auto simp: connection_markup_def getitem_def and_then_def
        split: prod.splits option.splits)

lemma render_components_markup:
  \<open>render_components fstr r components pos =
     Inr (join nl ([nl @ ''  <!-- Components Layer -->'',
                    ''  <g class="components-layer" filter="url(#shadow)">'']
                   @ concat (map (component_markup fstr r pos) components) @ [''  </g>'']))\<close>
  by (simp add: render_components_def components_loop_markup and_then_def)

lemma render_connections_markup:
  \<open>render_connections fstr r connections pos components =
     Inr (join nl ([nl @ ''  <!-- Connections Layer -->'', ''  <g class="connections-layer">'']
                   @ concat (map (connection_markup fstr r pos (comp_lookup components))
                       connections)
                   @ [''  </g>'']))\<close>
  by (simp add: render_connections_def connections_loop_markup and_then_def)

lemma render_returns:
  "\<exists>svg. render fstr r components connections pos config annotations = Inr svg"
  by (simp add: render_def render_components_markup render_connections_markup and_then_def
      Let_def)

lemma component_markup_absent:
  "map_of pos (comp_id c) = None \<Longrightarrow> component_markup fstr r pos c = []"
  by (simp add: component_markup_def)

lemma connection_markup_absent:
  "map_of pos (from_node k) = None \<or> map_of pos (to_node k) = None \<Longrightarrow>
     connection_markup fstr r pos lookup k = []"
  by (auto simp: connection_markup_def split: option.splits)

lemma component_markup_positioned:
  "concat (map (component_markup fstr r pos) (positioned_components pos cs)) =
   concat (map (component_markup fstr r pos) cs)"
proof (induction cs)
  case Nil
  show ?case by (simp add: positioned_components_def)
next
  case (Cons c cs)
  then show ?case
    by (cases "map_of pos (comp_id c) = None")
       (simp_all add: positioned_components_def component_markup_absent del: not_None_eq)
qed

lemma connection_markup_positioned:
  "concat (map (connection_markup fstr r pos lookup) (positioned_connections pos ks)) =
   concat (map (connection_markup fstr r pos lookup) ks)"
proof (induction ks)
  case Nil
  show ?case by (simp add: positioned_connections_def)
next
  case (Cons k ks)
  then show ?case
    by (cases "map_of pos (from_node k) = None \<or> map_of pos (to_node k) = None")
       (auto simp add: positioned_connections_def connection_markup_absent
          simp del: not_None_eq)
qed

lemma comp_lookup_fold_positioned:
  assumes "map_of pos k \<noteq> None" and "map_of m k = map_of m' k"
  shows "map_of (fold (\<lambda>c. AList.update (comp_id c) c) (positioned_components pos cs) m) k =
         map_of (fold (\<lambda>c. AList.update (comp_id c) c) cs m') k"
  using assms(2)
proof (induction cs arbitrary: m m')
  case Nil
  then show ?case by (simp add: positioned_components_def)
next
  case (Cons c cs)
  show ?case
  proof (cases "map_of pos (comp_id c) = None")
    case True
    with assms(1) have "comp_id c \<noteq> k" by auto
    then have "map_of m k = map_of (AList.update (comp_id c) c m') k"
      using Cons.prems by (simp add: update_conv')
    from Cons.IH [OF this] True show ?thesis
      by (simp add: positioned_components_def)
  next
    case False
    have "map_of (AList.update (comp_id c) c m) k = map_of (AList.update (comp_id c) c m') k"
      using Cons.prems by (simp add: update_conv')
    from Cons.IH [OF this] False show ?thesis
      by (simp add: positioned_components_def)
  qed
qed

lemma comp_lookup_positioned:
  "map_of pos k \<noteq> None \<Longrightarrow>
     map_of (comp_lookup (positioned_components pos cs)) k = map_of (comp_lookup cs) k"
  unfolding comp_lookup_def by (rule comp_lookup_fold_positioned) simp_all

lemma connection_markup_lookup_positioned:
  "connection_markup fstr r pos (comp_lookup (positioned_components pos cs)) =
   connection_markup fstr r pos (comp_lookup cs)"
  by (rule ext)
     (auto simp: connection_markup_def connection_endpoints_def comp_lookup_positioned
      split: option.splits)



text \<open>
  C4: the path is a cubic curve from \<open>(x1, y1)\<close> to \<open>(x2, y2)\<close> whose control points are
  \<open>((x1 + x2) / 2, y1)\<close> and \<open>((x1 + x2) / 2, y2)\<close>.  From \<open>(0, 0)\<close> to \<open>(100, 100)\<close>
  and from \<open>(0, 0)\<close> to \<open>(100, 200)\<close> the control points sit at \<open>x = 50\<close> alike: the
  offset \<^verbatim>\<open>ctrl_offset\<close>, 30 and 60 in the two cases, is computed and left out of the
  path.
\<close>

theorem connection_path_ignores_ctrl_offset:
  "connection_path fstr 0 0 100 100 =
     ''M '' @ fstr 0 @ '' '' @ fstr 0 @ '' C '' @ fstr 50 @ '' '' @ fstr 0 @ '', ''
       @ fstr 50 @ '' '' @ fstr 100 @ '', '' @ fstr 100 @ '' '' @ fstr 100 \<and>
   connection_path fstr 0 0 100 200 =
     ''M '' @ fstr 0 @ '' '' @ fstr 0 @ '' C '' @ fstr 50 @ '' '' @ fstr 0 @ '', ''
       @ fstr 50 @ '' '' @ fstr 200 @ '', '' @ fstr 100 @ '' '' @ fstr 200"
  by (simp add: connection_path_def)

section \<open>exporters.py\<close>

text \<open>
  \<^verbatim>\<open>Base64Exporter.encode\<close> turns its argument into bytes, so here a Python \<^verbatim>\<open>str\<close> is
  the list of its code points and a byte is an 8-bit word.  \<^verbatim>\<open>str.encode("utf-8")\<close>
  raises \<^verbatim>\<open>UnicodeEncodeError\<close> on a surrogate code point (U+D800 to U+DFFF), which a
  Python string may hold; \<open>None\<close> stands for that exception.
\<close>

type_synonym byte = "8 word"

definition utf8_char :: "nat \<Rightarrow> byte list option" where
  "utf8_char c =
    (if c < 0x80 then Some [word_of_nat c]
     else if c < 0x800 then
       Some [word_of_nat (0xC0 + c div 64), word_of_nat (0x80 + c mod 64)]
     else if 0xD800 \<le> c \<and> c \<le> 0xDFFF then None
     else if c < 0x10000 then
       Some [word_of_nat (0xE0 + c div 4096), word_of_nat (0x80 + c div 64 mod 64),
             word_of_nat (0x80 + c mod 64)]
     else
       Some [word_of_nat (0xF0 + c div 262144), word_of_nat (0x80 + c div 4096 mod 64),
             word_of_nat (0x80 + c div 64 mod 64), word_of_nat (0x80 + c mod 64)])"

fun utf8_encode :: "nat list \<Rightarrow> byte list option" where
  "utf8_encode [] = Some []"
| "utf8_encode (c # cs) =
     (case utf8_char c of
        None \<Rightarrow> None
      | Some bs \<Rightarrow> (case utf8_encode cs of None \<Rightarrow> None | Some rest \<Rightarrow> Some (bs @ rest)))"

text \<open>
  \<^verbatim>\<open>base64.b64encode\<close> (RFC 4648, standard alphabet, padded with \<open>=\<close>, no line breaks),
  followed by \<^verbatim>\<open>.decode("ascii")\<close>, which cannot fail on its output.
\<close>

definition b64_alphabet :: string where
  "b64_alphabet = ''ABCDEFGHIJKLMNOPQRSTUVWXYZabcdefghijklmnopqrstuvwxyz0123456789+/''"

definition b64_char :: "nat \<Rightarrow> char" where
  "b64_char i = b64_alphabet ! i"

fun b64encode :: "byte list \<Rightarrow> string" where
  "b64encode [] = []"
| "b64encode [a] =
     (let n = unat a
      in [b64_char (n div 4), b64_char (n mod 4 * 16), CHR ''='', CHR ''=''])"
| "b64encode [a, b] =
     (let n = unat a * 256 + unat b
      in [b64_char (n div 1024), b64_char (n div 16 mod 64), b64_char (n mod 16 * 4),
          CHR ''=''])"
| "b64encode (a # b # c # rest) =
     (let n = unat a * 65536 + unat b * 256 + unat c
      in [b64_char (n div 262144), b64_char (n div 4096 mod 64), b64_char (n div 64 mod 64),
          b64_char (n mod 64)] @ b64encode rest)"

text \<open>
  \<^verbatim>\<open>base64.b64decode\<close> on padded text of the standard alphabet, the reader the round
  trip is stated with; \<open>None\<close> on any other text.
\<close>

fun index_of :: "'a \<Rightarrow> 'a list \<Rightarrow> nat option" where
  "index_of x [] = None"
| "index_of x (y # ys) =
     (if x = y then Some 0 else (case index_of x ys of None \<Rightarrow> None | Some i \<Rightarrow> Some (Suc i)))"

definition b64_index :: "char \<Rightarrow> nat option" where
  "b64_index c = index_of c b64_alphabet"

definition b64_group :: "char \<Rightarrow> char \<Rightarrow> char \<Rightarrow> char \<Rightarrow> nat option" where
  "b64_group c0 c1 c2 c3 =
    (case (b64_index c0, b64_index c1, b64_index c2, b64_index c3) of
       (Some i0, Some i1, Some i2, Some i3) \<Rightarrow> Some (((i0 * 64 + i1) * 64 + i2) * 64 + i3)
     | _ \<Rightarrow> None)"

fun b64decode :: "string \<Rightarrow> byte list option" where
  "b64decode [] = Some []"
| "b64decode (c0 # c1 # c2 # c3 # rest) =
     (if rest = [] \<and> c3 = CHR ''='' then
        (if c2 = CHR ''='' then
           map_option (\<lambda>m. [word_of_nat (m div 65536)])
             (b64_group c0 c1 (CHR ''A'') (CHR ''A''))
         else
           map_option (\<lambda>m. [word_of_nat (m div 65536), word_of_nat (m div 256 mod 256)])
             (b64_group c0 c1 c2 (CHR ''A'')))
      else
        (case b64_group c0 c1 c2 c3 of
           None \<Rightarrow> None
         | Some m \<Rightarrow>
             map_option
               (append [word_of_nat (m div 65536), word_of_nat (m div 256 mod 256),
                        word_of_nat (m mod 256)])
               (b64decode rest)))"
| "b64decode _ = None"

text \<open>The code points \<^verbatim>\<open>str.encode("utf-8")\<close> refuses.\<close>

definition is_surrogate :: "nat \<Rightarrow> bool" where
  "is_surrogate c \<longleftrightarrow> 0xD800 \<le> c \<and> c \<le> 0xDFFF"

datatype export_error = UnicodeEncodeError

text \<open>\<^verbatim>\<open>Base64Exporter.encode\<close>.\<close>

definition Base64Exporter_encode :: "nat list \<Rightarrow> export_error + string" where
  "Base64Exporter_encode svg_content =
    (case utf8_encode svg_content of
       None \<Rightarrow> Inl UnicodeEncodeError
     | Some bytes \<Rightarrow> Inr (''data:image/svg+xml;base64,'' @ b64encode bytes))"


subsection \<open>Decoding what \<open>b64encode\<close> wrote\<close>

lemma index_of_nth:
  "distinct xs \<Longrightarrow> i < length xs \<Longrightarrow> index_of (xs ! i) xs = Some i"
proof (induction xs arbitrary: i)
  case Nil
  then show ?case by simp
next
  case (Cons x xs)
  then show ?case by (cases i) auto
qed

lemma b64_alphabet_length: "length b64_alphabet = 64"
  by (simp add: b64_alphabet_def)

lemma b64_alphabet_distinct: "distinct b64_alphabet"
  by (simp add: b64_alphabet_def)

lemma b64_index_char: "i < 64 \<Longrightarrow> b64_index (b64_char i) = Some i"
  by (simp add: b64_index_def b64_char_def index_of_nth b64_alphabet_distinct
      b64_alphabet_length)

lemma b64_char_not_pad: "i < 64 \<Longrightarrow> b64_char i \<noteq> CHR ''=''"
proof -
  assume "i < 64"
  then have "b64_char i \<in> set b64_alphabet"
    by (simp add: b64_char_def b64_alphabet_length)
  moreover have "CHR ''='' \<notin> set b64_alphabet"
    by (simp add: b64_alphabet_def)
  ultimately show ?thesis by auto
qed

lemma b64_index_A: "b64_index (CHR ''A'') = Some 0"
  by (simp add: b64_index_def b64_alphabet_def)

lemma unat_byte: "unat (a :: byte) < 256"
  using unsigned_less [of a, where 'a = nat] by simp

lemma sextets1:
  fixes n :: nat
  assumes "n < 256"
  shows "n div 4 < 64" "n mod 4 * 16 < 64"
    and "(n div 4 * 64 + n mod 4 * 16) * 64 * 64 = n * 65536"
proof -
  show "n div 4 < 64" using assms by simp
  show "n mod 4 * 16 < 64" by simp
  have g: "(q * 64 + r * 16) * 64 * 64 = (q * 4 + r) * 65536" for q r :: nat
    by (simp add: algebra_simps)
  have "(n div 4 * 4 + n mod 4) * 65536 = n * 65536"
    by (simp only: div_mult_mod_eq)
  with g [of "n div 4" "n mod 4"]
  show "(n div 4 * 64 + n mod 4 * 16) * 64 * 64 = n * 65536"
    by (rule trans)
qed

lemma sextets2:
  fixes n :: nat
  assumes "n < 65536"
  shows "n div 1024 < 64" "n mod 16 * 4 < 64"
    and "((n div 1024 * 64 + n div 16 mod 64) * 64 + n mod 16 * 4) * 64 = n * 256"
proof -
  show "n div 1024 < 64" using assms by simp
  show "n mod 16 * 4 < 64" by simp
  have a: "n div 1024 = n div 16 div 64"
    by (simp add: div_mult2_eq [symmetric])
  have g: "(q * 64 + r * 4) * 64 = (q * 16 + r) * 256" for q r :: nat
    by (simp add: algebra_simps)
  have "((n div 1024 * 64 + n div 16 mod 64) * 64 + n mod 16 * 4) * 64
      = ((n div 16 div 64 * 64 + n div 16 mod 64) * 64 + n mod 16 * 4) * 64"
    by (simp only: a)
  also have "\<dots> = (n div 16 * 64 + n mod 16 * 4) * 64"
    by (simp only: div_mult_mod_eq)
  also have "\<dots> = (n div 16 * 16 + n mod 16) * 256"
    by (rule g)
  also have "\<dots> = n * 256"
    by (simp only: div_mult_mod_eq)
  finally show "((n div 1024 * 64 + n div 16 mod 64) * 64 + n mod 16 * 4) * 64 = n * 256" .
qed

lemma sextets3:
  fixes n :: nat
  assumes "n < 16777216"
  shows "n div 262144 < 64"
    and "((n div 262144 * 64 + n div 4096 mod 64) * 64 + n div 64 mod 64) * 64 + n mod 64 = n"
proof -
  show "n div 262144 < 64" using assms by simp
  have a: "n div 4096 = n div 64 div 64" and b: "n div 262144 = n div 4096 div 64"
    by (simp_all add: div_mult2_eq [symmetric])
  have "((n div 262144 * 64 + n div 4096 mod 64) * 64 + n div 64 mod 64) * 64 + n mod 64
      = ((n div 4096 div 64 * 64 + n div 4096 mod 64) * 64 + n div 64 mod 64) * 64 + n mod 64"
    by (simp only: b)
  also have "\<dots> = (n div 4096 * 64 + n div 64 mod 64) * 64 + n mod 64"
    by (simp only: div_mult_mod_eq)
  also have "\<dots> = (n div 64 div 64 * 64 + n div 64 mod 64) * 64 + n mod 64"
    by (simp only: a)
  also have "\<dots> = n div 64 * 64 + n mod 64"
    by (simp only: div_mult_mod_eq)
  also have "\<dots> = n"
    by (simp only: div_mult_mod_eq)
  finally show "((n div 262144 * 64 + n div 4096 mod 64) * 64 + n div 64 mod 64) * 64
      + n mod 64 = n" .
qed

lemma octets3:
  fixes a b c :: nat
  assumes "b < 256" "c < 256"
  shows "(a * 65536 + b * 256 + c) div 65536 = a"
    and "(a * 65536 + b * 256 + c) div 256 mod 256 = b"
    and "(a * 65536 + b * 256 + c) mod 256 = c"
proof -
  have "b * 256 + c < 65536" using assms by simp
  then show "(a * 65536 + b * 256 + c) div 65536 = a"
    by (simp add: add.assoc)
  have e: "(a * 65536 + b * 256 + c) = (a * 256 + b) * 256 + c" by simp
  then have d: "(a * 65536 + b * 256 + c) div 256 = a * 256 + b"
    using assms(2) by simp
  show "(a * 65536 + b * 256 + c) div 256 mod 256 = b"
    unfolding d using assms(1) by simp
  have "((a * 256 + b) * 256 + c) mod 256 = c mod 256"
    by (rule mod_mult_self3)
  then show "(a * 65536 + b * 256 + c) mod 256 = c"
    using assms(2) by (simp only: e mod_less)
qed


lemma b64_group_chars:
  assumes "i0 < 64" "i1 < 64" "i2 < 64" "i3 < 64"
  shows "b64_group (b64_char i0) (b64_char i1) (b64_char i2) (b64_char i3) =
    Some (((i0 * 64 + i1) * 64 + i2) * 64 + i3)"
  using assms by (simp add: b64_group_def b64_index_char)

lemma b64_group_chars_pad1:
  assumes "i0 < 64" "i1 < 64" "i2 < 64"
  shows "b64_group (b64_char i0) (b64_char i1) (b64_char i2) (CHR ''A'') =
    Some (((i0 * 64 + i1) * 64 + i2) * 64)"
  using assms by (simp add: b64_group_def b64_index_char b64_index_A)

lemma b64_group_chars_pad2:
  assumes "i0 < 64" "i1 < 64"
  shows "b64_group (b64_char i0) (b64_char i1) (CHR ''A'') (CHR ''A'') =
    Some ((i0 * 64 + i1) * 64 * 64)"
  using assms by (simp add: b64_group_def b64_index_char b64_index_A)

lemma byte_of_unat: "word_of_nat (unat (a :: byte)) = a"
  by simp

lemma b64decode_one: "b64decode (b64encode [a]) = Some [a]"
proof -
  let ?n = "unat a"
  have n: "?n < 256" by (rule unat_byte)
  have grp: "b64_group (b64_char (?n div 4)) (b64_char (?n mod 4 * 16)) (CHR ''A'') (CHR ''A'')
      = Some (?n * 65536)"
    using sextets1 [OF n] by (simp only: b64_group_chars_pad2)
  show ?thesis
    by (simp add: Let_def grp)
qed

lemma b64decode_two: "b64decode (b64encode [a, b]) = Some [a, b]"
proof -
  let ?n = "unat a * 256 + unat b"
  have n: "?n < 65536" using unat_byte [of a] unat_byte [of b] by simp
  have "?n * 256 = unat a * 65536 + unat b * 256 + 0" by simp
  with octets3 [of "unat b" 0 "unat a"] unat_byte [of b]
  have a: "word_of_nat (?n * 256 div 65536) = a"
    and b: "word_of_nat (?n * 256 div 256 mod 256) = b"
    by (simp_all only: byte_of_unat)
  have pad: "b64_char (?n mod 16 * 4) \<noteq> CHR ''=''"
    using sextets2(2) [OF n] by (rule b64_char_not_pad)
  have grp: "b64_group (b64_char (?n div 1024)) (b64_char (?n div 16 mod 64))
      (b64_char (?n mod 16 * 4)) (CHR ''A'') = Some (?n * 256)"
    using sextets2 [OF n] by (simp only: b64_group_chars_pad1)
  have enc: "b64encode [a, b] = [b64_char (?n div 1024), b64_char (?n div 16 mod 64),
      b64_char (?n mod 16 * 4), CHR ''='']"
    by (simp only: b64encode.simps Let_def)
  show ?thesis
    unfolding enc using pad
    by (simp only: b64decode.simps grp a b option.map simp_thms if_True if_False)
qed

lemma b64decode_three:
  "b64decode (b64encode (a # b # c # rest)) =
     map_option (append [a, b, c]) (b64decode (b64encode rest))"
proof -
  let ?n = "unat a * 65536 + unat b * 256 + unat c"
  have n: "?n < 16777216" using unat_byte [of a] unat_byte [of b] unat_byte [of c] by simp
  note oct = octets3 [OF unat_byte [of b] unat_byte [of c], of "unat a"]
  have bytes: "word_of_nat (?n div 65536) = a" "word_of_nat (?n div 256 mod 256) = b"
      "word_of_nat (?n mod 256) = c"
    by (simp_all only: oct byte_of_unat)
  have pad: "b64_char (?n mod 64) \<noteq> CHR ''=''"
    by (rule b64_char_not_pad) simp
  have grp: "b64_group (b64_char (?n div 262144)) (b64_char (?n div 4096 mod 64))
      (b64_char (?n div 64 mod 64)) (b64_char (?n mod 64)) = Some ?n"
    using sextets3 [OF n] by (simp add: b64_group_chars)
  have enc: "b64encode (a # b # c # rest) = b64_char (?n div 262144) #
      b64_char (?n div 4096 mod 64) # b64_char (?n div 64 mod 64) # b64_char (?n mod 64) #
      b64encode rest"
    by (simp only: b64encode.simps Let_def append.simps)
  show ?thesis
    unfolding enc using pad
    by (simp only: b64decode.simps grp bytes option.case simp_thms if_False)
qed

lemma b64decode_b64encode: "b64decode (b64encode bs) = Some bs"
proof (induction bs rule: b64encode.induct)
  case 1
  show ?case by simp
next
  case (2 a)
  show ?case by (rule b64decode_one)
next
  case (3 a b)
  show ?case by (rule b64decode_two)
next
  case (4 a b c rest)
  then show ?case by (simp only: b64decode_three option.map append.simps)
qed

subsection \<open>The data URI round trip\<close>

lemma utf8_char_defined: "utf8_char c = None \<longleftrightarrow> is_surrogate c"
  by (simp add: utf8_char_def is_surrogate_def)

lemma utf8_encode_defined: "utf8_encode s = None \<longleftrightarrow> (\<exists>c \<in> set s. is_surrogate c)"
  by (induction s) (auto simp: utf8_char_defined [symmetric] split: option.splits)

text \<open>
  C9, as the code has it: for a string without surrogate code points the result is the
  prefix \<^verbatim>\<open>data:image/svg+xml;base64,\<close> followed by a payload whose base64 decoding is,
  byte for byte, the UTF-8 encoding of the string; for a string that holds a surrogate
  code point the call raises \<^verbatim>\<open>UnicodeEncodeError\<close>.
\<close>

theorem base64_round_trip:
  "(if \<exists>c \<in> set s. is_surrogate c
    then Base64Exporter_encode s = Inl UnicodeEncodeError
    else \<exists>payload bs.
           Base64Exporter_encode s = Inr (''data:image/svg+xml;base64,'' @ payload) \<and>
           utf8_encode s = Some bs \<and> b64decode payload = Some bs)"
proof (cases "utf8_encode s")
  case None
  then show ?thesis
    by (simp add: Base64Exporter_encode_def utf8_encode_defined [symmetric])
next
  case (Some bs)
  then have "\<not> (\<exists>c \<in> set s. is_surrogate c)"
    by (simp add: utf8_encode_defined [symmetric])
  moreover have "Base64Exporter_encode s = Inr (''data:image/svg+xml;base64,'' @ b64encode bs)"
    using Some by (simp add: Base64Exporter_encode_def)
  ultimately show ?thesis
    using Some b64decode_b64encode [of bs] by auto
qed

text \<open>
  The claim C9 as stated fails for the Python string \<^verbatim>\<open><text>\ud800</text>\<close> (a label
  read by \<^verbatim>\<open>json.loads\<close> can hold such a code point): \<^verbatim>\<open>encode\<close> raises.
\<close>

theorem base64_round_trip_counterexample:
  "Base64Exporter_encode (map of_char ''<text>'' @ [0xD800] @ map of_char ''</text>'') =
     Inl UnicodeEncodeError"
  by (simp add: Base64Exporter_encode_def utf8_char_def)

theorem base64_round_trip_witness:
  "Base64Exporter_encode [0x3C, 0xE9, 0x3E] = Inr ''data:image/svg+xml;base64,PMOpPg=='' \<and>
   b64decode ''PMOpPg=='' = Some [0x3C, 0xC3, 0xA9, 0x3E] \<and>
   utf8_encode [0x3C, 0xE9, 0x3E] = Some [0x3C, 0xC3, 0xA9, 0x3E]"
proof -
  have ok: "\<not> (\<exists>c \<in> set [0x3C, 0xE9, 0x3E]. is_surrogate c)"
    by (simp add: is_surrogate_def)
  have enc: "Base64Exporter_encode [0x3C, 0xE9, 0x3E] = Inr ''data:image/svg+xml;base64,PMOpPg==''"
    by (simp add: Base64Exporter_encode_def utf8_char_def b64_char_def b64_alphabet_def)
  have utf: "utf8_encode [0x3C, 0xE9, 0x3E] = Some [0x3C, 0xC3, 0xA9, 0x3E]"
    by (simp add: utf8_char_def)
  from base64_round_trip [of "[0x3C, 0xE9, 0x3E]"] ok
  obtain payload bs where
    "Base64Exporter_encode [0x3C, 0xE9, 0x3E] = Inr (''data:image/svg+xml;base64,'' @ payload)"
    "utf8_encode [0x3C, 0xE9, 0x3E] = Some bs" "b64decode payload = Some bs"
    by (simp only: if_False) blast
  with enc utf have "b64decode ''PMOpPg=='' = Some [0x3C, 0xC3, 0xA9, 0x3E]"
    by simp
  with enc utf show ?thesis by simp
qed

section \<open>cli.py\<close>

text \<open>
  The definition document after \<^verbatim>\<open>json.loads\<close> or \<^verbatim>\<open>yaml.safe_load\<close>, in the shape
  the command reads: an object whose \<^verbatim>\<open>components\<close>, \<^verbatim>\<open>nodes\<close> and \<^verbatim>\<open>connections\<close>
  entries, where present, are arrays of objects.  An object is its list of keys and
  values; a value is a string or \<^verbatim>\<open>None\<close> (JSON \<^verbatim>\<open>null\<close>).  \<^verbatim>\<open>obj.get(key)\<close> is
  \<^verbatim>\<open>None\<close> for an absent key as well.
\<close>

type_synonym obj = "(string \<times> string option) list"

record definition_document =
  doc_components :: "obj list option"
  doc_nodes :: "obj list option"
  doc_connections :: "obj list option"

definition has_key :: "obj \<Rightarrow> string \<Rightarrow> bool" where
  "has_key ob k \<longleftrightarrow> map_of ob k \<noteq> None"

definition obj_get :: "obj \<Rightarrow> string \<Rightarrow> string option" where
  "obj_get ob k = (case map_of ob k of None \<Rightarrow> None | Some v \<Rightarrow> v)"

text \<open>\<^verbatim>\<open>data.get("components", data.get("nodes", []))\<close>.\<close>

definition components_or_nodes :: "definition_document \<Rightarrow> obj list" where
  "components_or_nodes d =
    (case doc_components d of
       Some cs \<Rightarrow> cs
     | None \<Rightarrow> (case doc_nodes d of Some ns \<Rightarrow> ns | None \<Rightarrow> []))"

text \<open>\<^verbatim>\<open>data.get("connections", [])\<close>.\<close>

definition connections_or_empty :: "definition_document \<Rightarrow> obj list" where
  "connections_or_empty d = (case doc_connections d of Some cs \<Rightarrow> cs | None \<Rightarrow> [])"

text \<open>The set \<^verbatim>\<open>node_ids\<close>.\<close>

definition node_ids :: "definition_document \<Rightarrow> string option set" where
  "node_ids d = set (map (\<lambda>c. obj_get c ''id'') (components_or_nodes d))"

text \<open>The messages the command appends to \<^verbatim>\<open>errors\<close>.\<close>

definition missing_field_error :: "nat \<Rightarrow> string \<Rightarrow> string" where
  "missing_field_error i field =
     ''Component '' @ str_of_nat i @ '': missing '' @ [CHR 0x27] @ field @ [CHR 0x27]
       @ '' field''"

definition invalid_node_error :: "nat \<Rightarrow> string \<Rightarrow> string" where
  "invalid_node_error i side =
     ''Connection '' @ str_of_nat i @ '': invalid '' @ [CHR 0x27] @ side @ [CHR 0x27]
       @ '' node''"

text \<open>The two conditions of the loop over the connections.\<close>

definition invalid_from :: "definition_document \<Rightarrow> obj \<Rightarrow> bool" where
  "invalid_from d conn \<longleftrightarrow>
     obj_get conn ''from_node'' \<notin> node_ids d \<and> obj_get conn ''from'' \<notin> node_ids d"

definition invalid_to :: "definition_document \<Rightarrow> obj \<Rightarrow> bool" where
  "invalid_to d conn \<longleftrightarrow>
     obj_get conn ''to_node'' \<notin> node_ids d \<and> obj_get conn ''to'' \<notin> node_ids d"

text \<open>The list \<^verbatim>\<open>errors\<close> once the three checks have run.\<close>

definition component_errors :: "nat \<times> obj \<Rightarrow> string list" where
  "component_errors = (\<lambda>(i, c).
     (if \<not> has_key c ''id'' then [missing_field_error i ''id''] else []) @
     (if \<not> has_key c ''label'' then [missing_field_error i ''label''] else []))"

definition connection_errors :: "definition_document \<Rightarrow> nat \<times> obj \<Rightarrow> string list" where
  "connection_errors d = (\<lambda>(i, conn).
     (if invalid_from d conn then [invalid_node_error i ''from''] else []) @
     (if invalid_to d conn then [invalid_node_error i ''to''] else []))"

definition validation_errors :: "definition_document \<Rightarrow> string list" where
  \<open>validation_errors d =
     (if doc_components d = None \<and> doc_nodes d = None
      then [''Missing \'components\' or \'nodes\' field''] else []) @
     concat (map component_errors (enumerate0 (components_or_nodes d))) @
     concat (map (connection_errors d) (enumerate0 (connections_or_empty d)))\<close>

text \<open>
  What the command finds at its input path: no file, a file the parser rejects (with
  the parser's message), or a document.  What it leaves: its return value and the
  strings it printed, one per \<^verbatim>\<open>print\<close> call.
\<close>

datatype input_file = Missing | Unparsable string | Document definition_document

record outcome =
  exit_code :: int
  stdout :: "string list"
  stderr :: "string list"

text \<open>\<^verbatim>\<open>cmd_validate\<close>.\<close>

definition cmd_validate :: "string \<Rightarrow> input_file \<Rightarrow> outcome" where
  "cmd_validate input_path file =
    (case file of
       Missing \<Rightarrow>
         \<lparr> exit_code = 1, stdout = [],
           stderr = [''Error: File not found: '' @ input_path] \<rparr>
     | Unparsable e \<Rightarrow>
         \<lparr> exit_code = 1, stdout = [''Validating: '' @ input_path],
           stderr = [''Parse error: '' @ e] \<rparr>
     | Document d \<Rightarrow>
         (let errors = validation_errors d
          in if errors \<noteq> [] then
               \<lparr> exit_code = 1,
                 stdout = [''Validating: '' @ input_path, nl @ ''Validation FAILED:'']
                          @ map (\<lambda>err. ''  - '' @ err) errors,
                 stderr = [] \<rparr>
             else
               \<lparr> exit_code = 0,
                 stdout = [''Validating: '' @ input_path, nl @ ''Validation PASSED'',
                           ''  Components: '' @ str_of_nat (length (components_or_nodes d)),
                           ''  Connections: '' @ str_of_nat (length (connections_or_empty d))],
                 stderr = [] \<rparr>))"


text \<open>
  A document for the examples below: components \<^verbatim>\<open>a\<close> and \<^verbatim>\<open>b\<close>, and three connections
  of which the second starts at, and the third ends at, the id \<open>target\<close>.
\<close>

definition example_document :: "string \<Rightarrow> definition_document" where
  "example_document target = \<lparr>
     doc_components = Some [[(''id'', Some ''a''), (''label'', Some ''A'')],
                            [(''id'', Some ''b''), (''label'', Some ''B'')]],
     doc_nodes = None,
     doc_connections = Some [[(''from'', Some ''a''), (''to'', Some ''b'')],
                             [(''from'', Some target), (''to'', Some ''b'')],
                             [(''from'', Some ''a''), (''to'', Some target)]] \<rparr>"

subsection \<open>What the validation reports\<close>

lemma str_of_nat_not_empty: "str_of_nat n \<noteq> []"
  by (subst str_of_nat.simps) (simp del: str_of_nat.simps)

lemma digit_char_inj: "a < 10 \<Longrightarrow> b < 10 \<Longrightarrow> digit_char a = digit_char b \<Longrightarrow> a = b"
proof -
  have d: "distinct ''0123456789''" by simp
  assume "a < 10" "b < 10" "digit_char a = digit_char b"
  then show "a = b"
    using nth_eq_iff_index_eq [OF d, of a b] by (simp add: digit_char_def)
qed

lemma str_of_nat_inj: "str_of_nat n = str_of_nat m \<Longrightarrow> n = m"
proof (induction n arbitrary: m rule: str_of_nat.induct)
  case (1 n)
  show ?case
  proof (cases "n < 10")
    case True
    show ?thesis
    proof (cases "m < 10")
      case mlt: True
      from "1.prems" True mlt have "digit_char n = digit_char m"
        by (subst (asm) str_of_nat.simps, subst (asm) (2) str_of_nat.simps)
          (simp del: str_of_nat.simps)
      with True mlt show ?thesis by (rule digit_char_inj)
    next
      case False
      from "1.prems" True False have "str_of_nat (m div 10) = []"
        by (subst (asm) str_of_nat.simps, subst (asm) (2) str_of_nat.simps)
          (simp del: str_of_nat.simps)
      then show ?thesis using str_of_nat_not_empty by blast
    qed
  next
    case False
    show ?thesis
    proof (cases "m < 10")
      case True
      from "1.prems" True False have "str_of_nat (n div 10) = []"
        by (subst (asm) str_of_nat.simps, subst (asm) (2) str_of_nat.simps)
          (simp del: str_of_nat.simps)
      then show ?thesis using str_of_nat_not_empty by blast
    next
      case mge: False
      from "1.prems" False mge
      have eq: "str_of_nat (n div 10) = str_of_nat (m div 10)"
        and dg: "digit_char (n mod 10) = digit_char (m mod 10)"
        by (subst (asm) str_of_nat.simps, subst (asm) (2) str_of_nat.simps,
            simp del: str_of_nat.simps)+
      from "1.IH" [OF False eq] have "n div 10 = m div 10" .
      moreover from dg have "n mod 10 = m mod 10"
        by (intro digit_char_inj) simp_all
      ultimately show ?thesis by (metis div_mult_mod_eq)
    qed
  qed
qed

lemma invalid_node_error_inj:
  "invalid_node_error i side = invalid_node_error j side \<Longrightarrow> i = j"
  by (simp add: invalid_node_error_def del: str_of_nat.simps) (rule str_of_nat_inj)

lemma invalid_from_not_to: "invalid_node_error i ''from'' \<noteq> invalid_node_error j ''to''"
proof
  assume "invalid_node_error i ''from'' = invalid_node_error j ''to''"
  then have "rev (invalid_node_error i ''from'') = rev (invalid_node_error j ''to'')"
    by (rule arg_cong)
  then show False
    by (simp add: invalid_node_error_def del: str_of_nat.simps)
qed

lemma invalid_node_error_not_component:
  "invalid_node_error i side \<notin> set (component_errors (j, c))"
  by (simp add: component_errors_def invalid_node_error_def missing_field_error_def
      del: str_of_nat.simps)

lemma in_connection_errors:
  "e \<in> set (concat (map (connection_errors d) (List.enumerate 0 conns))) \<longleftrightarrow>
     (\<exists>j < length conns.
        (invalid_from d (conns ! j) \<and> e = invalid_node_error j ''from'') \<or>
        (invalid_to d (conns ! j) \<and> e = invalid_node_error j ''to''))"
  (is "?lhs \<longleftrightarrow> ?rhs")
proof
  assume ?lhs
  then obtain p where p: "p \<in> set (List.enumerate 0 conns)"
    "e \<in> set (connection_errors d p)"
    by auto
  obtain j conn where pj: "p = (j, conn)" by (cases p)
  from p(1) pj have jl: "j < length conns" "conns ! j = conn"
    by (simp_all add: in_set_enumerate_eq)
  from p(2) pj
  have "(invalid_from d conn \<and> e = invalid_node_error j ''from'') \<or>
        (invalid_to d conn \<and> e = invalid_node_error j ''to'')"
    by (simp add: connection_errors_def del: str_of_nat.simps split: if_splits) blast
  with jl show ?rhs by blast
next
  assume ?rhs
  then obtain j where j: "j < length conns"
    "(invalid_from d (conns ! j) \<and> e = invalid_node_error j ''from'') \<or>
     (invalid_to d (conns ! j) \<and> e = invalid_node_error j ''to'')"
    by blast
  have "(j, conns ! j) \<in> set (List.enumerate 0 conns)"
    using j(1) by (simp add: in_set_enumerate_eq)
  moreover have "e \<in> set (connection_errors d (j, conns ! j))"
    using j(2) by (auto simp: connection_errors_def)
  ultimately show ?lhs
    by (auto simp del: str_of_nat.simps)
qed

lemma in_validation_errors:
  "invalid_node_error i side \<in> set (validation_errors d) \<longleftrightarrow>
     invalid_node_error i side \<in>
       set (concat (map (connection_errors d) (List.enumerate 0 (connections_or_empty d))))"
  by (auto simp: validation_errors_def enumerate0_def invalid_node_error_not_component
      simp del: str_of_nat.simps)
     (simp add: invalid_node_error_def)

lemma from_error_reported:
  "invalid_node_error i ''from'' \<in> set (validation_errors d) \<longleftrightarrow>
     i < length (connections_or_empty d) \<and> invalid_from d (connections_or_empty d ! i)"
  unfolding in_validation_errors in_connection_errors
  using invalid_node_error_inj invalid_from_not_to by blast

lemma to_error_reported:
  "invalid_node_error i ''to'' \<in> set (validation_errors d) \<longleftrightarrow>
     i < length (connections_or_empty d) \<and> invalid_to d (connections_or_empty d ! i)"
  unfolding in_validation_errors in_connection_errors
  using invalid_node_error_inj invalid_from_not_to [symmetric] by blast

lemma no_component_errors:
  "concat (map component_errors (List.enumerate n cs)) = [] \<longleftrightarrow>
     (\<forall>c \<in> set cs. has_key c ''id'' \<and> has_key c ''label'')"
  by (induction cs arbitrary: n) (auto simp: component_errors_def)

lemma no_connection_errors:
  "concat (map (connection_errors d) (List.enumerate n cs)) = [] \<longleftrightarrow>
     (\<forall>conn \<in> set cs. \<not> invalid_from d conn \<and> \<not> invalid_to d conn)"
  by (induction cs arbitrary: n) (auto simp: connection_errors_def)

lemma no_validation_errors:
  "validation_errors d = [] \<longleftrightarrow>
     (doc_components d \<noteq> None \<or> doc_nodes d \<noteq> None) \<and>
     (\<forall>c \<in> set (components_or_nodes d). has_key c ''id'' \<and> has_key c ''label'') \<and>
     (\<forall>conn \<in> set (connections_or_empty d). \<not> invalid_from d conn \<and> \<not> invalid_to d conn)"
  by (simp add: validation_errors_def enumerate0_def no_component_errors
      no_connection_errors del: concat_eq_Nil_conv)




end
